theory Spec2Isabelle
  imports Complex_Main
begin

section \<open>Python values and errors\<close>

text \<open>
  The exceptions that \<^verbatim>\<open>models.py\<close> can raise by itself. An unbound local variable
  raises \<^verbatim>\<open>UnboundLocalError\<close>, a subclass of \<^verbatim>\<open>NameError\<close>; the argument is the
  variable's name. \<^verbatim>\<open>AssertionError\<close>, \<^verbatim>\<open>ValueError\<close> carry the message,
  \<^verbatim>\<open>AttributeError\<close> and \<^verbatim>\<open>KeyError\<close> the name that was looked up.
  \<open>ShapeError\<close> is the failure of a torch operation on tensors whose shapes do not
  fit together.
\<close>

datatype error =
    AssertionError string
  | UnboundLocalError string
  | ValueError string
  | NotImplementedError
  | AttributeError string
  | KeyError string
  | IndexError
  | TypeError
  | ShapeError

fun is_name_error :: "error \<Rightarrow> bool" where
  "is_name_error (UnboundLocalError _) = True"
| "is_name_error _ = False"

text \<open>Sequencing of computations that may raise: the first exception wins.\<close>

fun ebind :: "error + 'a \<Rightarrow> ('a \<Rightarrow> error + 'b) \<Rightarrow> error + 'b" where
  "ebind (Inl e) f = Inl e"
| "ebind (Inr x) f = f x"

text \<open>
  Values of configuration options. A float is kept as a real number: the code only passes
  such values on and tests them for truth.
\<close>

datatype pyval = PNone | PBool bool | PInt int | PFloat real | PStr string

fun truthy :: "pyval \<Rightarrow> bool" where
  "truthy PNone = False"
| "truthy (PBool b) = b"
| "truthy (PInt i) = (i \<noteq> 0)"
| "truthy (PFloat x) = (x \<noteq> 0)"
| "truthy (PStr s) = (s \<noteq> [])"

section \<open>Per-task hyperparameters\<close>

text \<open>
  The options that \<^verbatim>\<open>get_task_specific_params\<close> reads are looked up by name, some of
  the names computed at run time, so this part of \<^verbatim>\<open>args\<close> is a namespace: a map from
  attribute name to value. \<^verbatim>\<open>hasattr\<close> is membership in its domain, \<^verbatim>\<open>getattr\<close> of
  an absent name raises \<^verbatim>\<open>AttributeError\<close>.
\<close>

type_synonym namespace = "string \<rightharpoonup> pyval"

definition getattr_ns :: "namespace \<Rightarrow> string \<Rightarrow> error + pyval" where
  "getattr_ns ns a = (case ns a of None \<Rightarrow> Inl (AttributeError a) | Some v \<Rightarrow> Inr v)"

definition hasattr_ns :: "namespace \<Rightarrow> string \<Rightarrow> bool" where
  "hasattr_ns ns a = (ns a \<noteq> None)"

text \<open>\<^verbatim>\<open>"%s_%s" % (task, attr_name)\<close>\<close>

definition task_key :: "string \<Rightarrow> string \<Rightarrow> string" where
  "task_key task attr_name = task @ ''_'' @ attr_name"

definition get_task_attr :: "namespace \<Rightarrow> string \<Rightarrow> string \<Rightarrow> error + pyval" where
  "get_task_attr ns task attr_name =
     (if hasattr_ns ns (task_key task attr_name)
      then getattr_ns ns (task_key task attr_name)
      else getattr_ns ns attr_name)"

record task_params =
  cls_type :: pyval
  d_hid :: pyval
  d_proj :: pyval
  shared_pair_attn :: pyval
  attn :: pyval
  dropout :: pyval

definition get_task_specific_params :: "namespace \<Rightarrow> string \<Rightarrow> error + task_params" where
  "get_task_specific_params ns task =
     ebind (get_task_attr ns task ''classifier'') (\<lambda>c.
     ebind (get_task_attr ns task ''classifier_hid_dim'') (\<lambda>h.
     ebind (get_task_attr ns task ''d_proj'') (\<lambda>p.
     ebind (getattr_ns ns ''shared_pair_attn'') (\<lambda>s.
       if truthy s then
         ebind (getattr_ns ns ''pair_attn'') (\<lambda>a.
         ebind (getattr_ns ns ''classifier_dropout'') (\<lambda>d.
           Inr \<lparr>cls_type = c, d_hid = h, d_proj = p, shared_pair_attn = s,
                attn = a, dropout = d\<rparr>))
       else
         ebind (get_task_attr ns task ''pair_attn'') (\<lambda>a.
         ebind (get_task_attr ns task ''classifier_dropout'') (\<lambda>d.
           Inr \<lparr>cls_type = c, d_hid = h, d_proj = p, shared_pair_attn = s,
                attn = a, dropout = d\<rparr>))))))"

section \<open>Tasks\<close>

text \<open>
  Modelled from the spec: the classes of module \<^verbatim>\<open>tasks\<close> are imported by
  \<^verbatim>\<open>models.py\<close> but not declared there. The Task Descriptor is "a variant over
  categories {SingleClassification, PairClassification, PairRegression,
  PairOrdinalRegression, LanguageModeling, SequenceGeneration, Ranking}", so the seven
  category classes are pairwise unrelated. The dataset classes that \<^verbatim>\<open>models.py\<close>
  tests inside a forward routine are subclasses of the category that reaches that routine:
  \<^verbatim>\<open>CoLATask\<close> and \<^verbatim>\<open>SSTTask\<close> of single classification, \<^verbatim>\<open>STSBTask\<close> of pair
  regression, \<^verbatim>\<open>JOCITask\<close> of pair ordinal regression. \<open>OtherTask\<close> stands for any
  class outside these.
\<close>

datatype task_class =
    SingleClassificationTask | CoLATask | SSTTask
  | PairClassificationTask
  | PairRegressionTask | STSBTask
  | PairOrdinalRegressionTask | JOCITask
  | LanguageModelingTask
  | SequenceGenerationTask
  | RankingTask
  | OtherTask

fun isinstance :: "task_class \<Rightarrow> task_class \<Rightarrow> bool" where
  "isinstance CoLATask k = (k = CoLATask \<or> k = SingleClassificationTask)"
| "isinstance SSTTask k = (k = SSTTask \<or> k = SingleClassificationTask)"
| "isinstance STSBTask k = (k = STSBTask \<or> k = PairRegressionTask)"
| "isinstance JOCITask k = (k = JOCITask \<or> k = PairOrdinalRegressionTask)"
| "isinstance c k = (k = c)"

text \<open>\<^verbatim>\<open>isinstance(task, (PairClassificationTask, PairRegressionTask,
  PairOrdinalRegressionTask))\<close>\<close>

definition is_pair :: "task_class \<Rightarrow> bool" where
  "is_pair c = (isinstance c PairClassificationTask \<or> isinstance c PairRegressionTask
                \<or> isinstance c PairOrdinalRegressionTask)"

text \<open>
  A task: its name, its class, \<^verbatim>\<open>n_classes\<close> when the attribute exists, and whether
  each scoring callback is set (\<^verbatim>\<open>None\<close> otherwise).
\<close>

record task =
  name :: string
  tclass :: task_class
  n_classes :: "int option"
  scorer1 :: bool
  scorer2 :: bool

section \<open>Configuration and vocabulary\<close>

text \<open>
  The options read under a fixed name. Flags tested for truth only are booleans;
  \<^verbatim>\<open>bidirectional\<close> and \<^verbatim>\<open>skip_embs\<close> also enter arithmetic and are integers (a Python
  \<^verbatim>\<open>bool\<close> is the integer 0 or 1). \<open>opts\<close> is the namespace of the options that
  \<^verbatim>\<open>get_task_specific_params\<close> looks up by name.
\<close>

record args =
  word_embs :: string
  d_word :: int
  d_char :: int
  cove :: bool
  char_embs :: bool
  char_filter_sizes :: string
  n_char_filters :: int
  dropout_embs :: real
  elmo :: bool
  elmo_chars_only :: bool
  sent_enc :: string
  bidirectional :: int
  enc_d_hid :: int
  d_tproj :: int
  d_ff :: int
  n_layers_enc :: int
  n_heads :: int
  n_layers_highway :: int
  enc_dropout :: real
  skip_embs :: int
  max_word_v_size :: int
  d_hid_dec :: int
  n_layers_dec :: int
  sent_combine_method :: pyval
  opts :: namespace

text \<open>
  \<open>enc_d_hid\<close> is \<^verbatim>\<open>args.d_hid\<close> and \<open>enc_dropout\<close> is \<^verbatim>\<open>args.dropout\<close>; the
  plain names are the keys \<^verbatim>\<open>'d_hid'\<close> and \<^verbatim>\<open>'dropout'\<close> of the per-task parameters.
\<close>

record vocabulary =
  n_tokens :: nat
  n_chars :: nat
  token_index :: "string \<Rightarrow> nat"
  padding_token :: string

section \<open>Embeddings\<close>

text \<open>A local variable of a Python function: read before assignment, it raises.\<close>

datatype 'a local = Unbound | Bound 'a

fun read_local :: "string \<Rightarrow> 'a local \<Rightarrow> error + 'a" where
  "read_local v Unbound = Inl (UnboundLocalError v)"
| "read_local v (Bound x) = Inr x"

text \<open>
  \<^verbatim>\<open>str.split(',')\<close> and \<^verbatim>\<open>int(s)\<close> on ASCII text: surrounding whitespace, an optional
  sign, decimal digits with single underscores between them. The whitespace that
  \<^verbatim>\<open>int\<close> skips in ASCII text is the space and the characters 0x09 to 0x0D; the
  separators 0x1C to 0x1F, which \<^verbatim>\<open>str.strip\<close> removes, are not among them, and a
  literal that contains one is invalid.
\<close>

fun split_on :: "char \<Rightarrow> string \<Rightarrow> string list" where
  "split_on c [] = [[]]"
| "split_on c (x # xs) =
     (if x = c then [] # split_on c xs
      else (case split_on c xs of [] \<Rightarrow> [[x]] | y # ys \<Rightarrow> (x # y) # ys))"

definition is_space :: "char \<Rightarrow> bool" where
  "is_space c = (c \<in> set [CHR '' '', CHR 0x09, CHR 0x0A, CHR 0x0B, CHR 0x0C, CHR 0x0D])"

definition strip :: "string \<Rightarrow> string" where
  "strip s = rev (dropWhile is_space (rev (dropWhile is_space s)))"

definition digit_val :: "char \<Rightarrow> int option" where
  "digit_val c = (let n = (of_char c :: nat)
                  in if 48 \<le> n \<and> n \<le> 57 then Some (int n - 48) else None)"

fun parse_digits :: "int \<Rightarrow> string \<Rightarrow> int option" where
  "parse_digits acc [] = Some acc"
| "parse_digits acc [c] = map_option (\<lambda>v. acc * 10 + v) (digit_val c)"
| "parse_digits acc (c # d # ds) =
     (if c = CHR ''_'' then
        (case digit_val d of None \<Rightarrow> None | Some v \<Rightarrow> parse_digits (acc * 10 + v) ds)
      else (case digit_val c of None \<Rightarrow> None
            | Some v \<Rightarrow> parse_digits (acc * 10 + v) (d # ds)))"

definition parse_unsigned :: "string \<Rightarrow> int option" where
  "parse_unsigned s =
     (case s of [] \<Rightarrow> None
      | c # cs \<Rightarrow> (case digit_val c of None \<Rightarrow> None | Some v \<Rightarrow> parse_digits v cs))"

definition py_int :: "string \<Rightarrow> error + int" where
  "py_int s =
     (let r = (case strip s of
                 [] \<Rightarrow> None
               | c # cs \<Rightarrow> if c = CHR ''-'' then map_option uminus (parse_unsigned cs)
                           else if c = CHR ''+'' then parse_unsigned cs
                           else parse_unsigned (c # cs))
      in case r of None \<Rightarrow> Inl (ValueError ''invalid literal for int()'') | Some i \<Rightarrow> Inr i)"

fun map_err :: "('a \<Rightarrow> error + 'b) \<Rightarrow> 'a list \<Rightarrow> error + 'b list" where
  "map_err f [] = Inr []"
| "map_err f (x # xs) = ebind (f x) (\<lambda>y. ebind (map_err f xs) (\<lambda>ys. Inr (y # ys)))"

text \<open>
  The sub-modules, as the arguments they are built from. Their constructors belong to
  allennlp, torch and the \<^verbatim>\<open>cove\<close> package; they are taken to succeed.
\<close>

datatype token_embedder =
    Embedding nat int bool nat
  | TokenCharactersEncoder nat int int "int list" real
  | ElmoCharacterEncoder
  | ElmoTokenEmbedder real

datatype cove_layer = MTLSTM nat

type_synonym embedder = "(string \<times> token_embedder) list"

text \<open>\<^verbatim>\<open>pretrained_embs\<close> is given by its shape, the only thing read from it.\<close>

definition word_step ::
  "args \<Rightarrow> vocabulary \<Rightarrow> nat list option
   \<Rightarrow> error + (int \<times> embedder \<times> token_embedder local)" where
  "word_step a vocab pretrained_embs =
     (if word_embs a \<noteq> ''none'' then
        ebind (if word_embs a \<in> set [''glove'', ''fastText''] \<and> pretrained_embs \<noteq> None
               then (case the pretrained_embs of [] \<Rightarrow> Inl IndexError
                     | sh \<Rightarrow> Inr (int (last sh), True))
               else Inr (d_word a, False))
          (\<lambda>(d_word, pre).
             let embeddings = Embedding (n_tokens vocab) d_word pre
                                (token_index vocab ''@@PADDING@@'')
             in Inr (0 + d_word, [(''words'', embeddings)], Bound embeddings))
      else Inr (0, [], Unbound))"

definition cove_step ::
  "bool \<Rightarrow> args \<Rightarrow> vocabulary \<Rightarrow> int \<Rightarrow> token_embedder local
   \<Rightarrow> error + (int \<times> cove_layer option local)" where
  "cove_step cove_importable a vocab d_emb embeddings =
     (if cove a then
        (if cove_importable then
           ebind (read_local ''embeddings'' embeddings) (\<lambda>e.
             Inr (d_emb + 600, Bound (Some (MTLSTM (n_tokens vocab)))))
         else Inr (d_emb, Unbound))
      else Inr (d_emb, Bound None))"

definition char_step :: "args \<Rightarrow> vocabulary \<Rightarrow> int \<Rightarrow> embedder \<Rightarrow> error + (int \<times> embedder)" where
  "char_step a vocab d_emb token_embedder =
     (if char_embs a then
        ebind (map_err py_int (split_on CHR '','' (char_filter_sizes a))) (\<lambda>filter_sizes.
          Inr (d_emb + d_char a,
               token_embedder @
               [(''chars'', TokenCharactersEncoder (n_chars vocab) (d_char a)
                              (n_char_filters a) filter_sizes (dropout_embs a))]))
      else Inr (d_emb, token_embedder))"

definition elmo_step :: "args \<Rightarrow> int \<Rightarrow> embedder \<Rightarrow> int \<times> embedder" where
  "elmo_step a d_emb token_embedder =
     (if elmo a then
        (if elmo_chars_only a
         then (d_emb + 512, token_embedder @ [(''elmo'', ElmoCharacterEncoder)])
         else (d_emb + 1024, token_embedder @ [(''elmo'', ElmoTokenEmbedder (enc_dropout a))]))
      else (d_emb, token_embedder))"

text \<open>
  \<^verbatim>\<open>build_embeddings\<close>. \<open>cove_importable\<close> tells whether \<^verbatim>\<open>from cove import MTLSTM\<close>
  succeeds with \<^verbatim>\<open>args.path_to_cove\<close> on the module path.
\<close>

definition build_embeddings ::
  "bool \<Rightarrow> args \<Rightarrow> vocabulary \<Rightarrow> nat list option
   \<Rightarrow> error + (int \<times> embedder \<times> cove_layer option)" where
  "build_embeddings cove_importable a vocab pretrained_embs =
     ebind (word_step a vocab pretrained_embs) (\<lambda>(d1, te1, embeddings).
     ebind (cove_step cove_importable a vocab d1 embeddings) (\<lambda>(d2, cove_emb).
     ebind (char_step a vocab d2 te1) (\<lambda>(d3, te3).
       let (d_emb, te) = elmo_step a d3 te3 in
       if d_emb = 0 then Inl (AssertionError ''You turned off all the embeddings, ya goof!'')
       else ebind (read_local ''cove_emb'' cove_emb) (\<lambda>c. Inr (d_emb, te, c)))))"

section \<open>Sentence encoder\<close>

record rnn_params =
  input_size :: int
  rnn_bidirectional :: int
  hidden_size :: int
  num_layers :: int

record tfm_params =
  input_dim :: int
  hidden_dim :: int
  projection_dim :: int
  feedforward_hidden_dim :: int
  tfm_num_layers :: int
  num_attention_heads :: int

datatype seq2seq =
    LSTM rnn_params
  | StackedSelfAttentionEncoder tfm_params
  | MaskedStackedSelfAttentionEncoder tfm_params

text \<open>
  \<^verbatim>\<open>SentenceEncoder(vocab, embedder, n_layers_highway, encoder, skip_embs, dropout,
  cove_layer)\<close>, \<^verbatim>\<open>BiLMEncoder(vocab, embedder, n_layers_highway, fwd, bwd, dropout,
  skip_embs, cove_layer)\<close> and \<^verbatim>\<open>BoWSentEncoder(vocab, embedder)\<close> of module
  \<^verbatim>\<open>modules\<close>, as their arguments.
\<close>

datatype sent_encoder =
    BoWSentEncoder embedder
  | SentenceEncoder embedder int seq2seq int real "cove_layer option"
  | BiLMEncoder embedder int seq2seq seq2seq real int "cove_layer option"

definition mk_tfm_params :: "args \<Rightarrow> int \<Rightarrow> tfm_params" where
  "mk_tfm_params a d_emb =
     \<lparr>input_dim = d_emb, hidden_dim = enc_d_hid a, projection_dim = d_tproj a,
      feedforward_hidden_dim = d_ff a, tfm_num_layers = n_layers_enc a,
      num_attention_heads = n_heads a\<rparr>"

definition mk_rnn_params :: "args \<Rightarrow> int \<Rightarrow> rnn_params" where
  "mk_rnn_params a d_emb =
     \<lparr>input_size = d_emb, rnn_bidirectional = bidirectional a,
      hidden_size = enc_d_hid a, num_layers = n_layers_enc a\<rparr>"

text \<open>
  Lines 44 to 89 of \<^verbatim>\<open>build_model\<close>: the encoder, still a local variable that the
  branches may leave unbound, and the width \<^verbatim>\<open>d_sent\<close>.
\<close>

definition build_sent_encoder ::
  "args \<Rightarrow> int \<Rightarrow> embedder \<Rightarrow> cove_layer option \<Rightarrow> task list
   \<Rightarrow> error + (sent_encoder local \<times> int)" where
  "build_sent_encoder a d_emb embedder cove_emb tasks =
     (let d_sent = enc_d_hid a;
          tfm = mk_tfm_params a d_emb;
          rnn = mk_rnn_params a d_emb
      in
      ebind
       (if (\<exists>t \<in> set tasks. isinstance (tclass t) LanguageModelingTask) then
          (if bidirectional a \<noteq> 0 then
             (let fb = (if sent_enc a = ''rnn'' then Bound (LSTM rnn, LSTM rnn)
                        else if sent_enc a = ''transformer''
                        then Bound (MaskedStackedSelfAttentionEncoder tfm,
                                    MaskedStackedSelfAttentionEncoder tfm)
                        else Unbound)
              in ebind (read_local ''fwd'' fb) (\<lambda>(fwd, bwd).
                   Inr (Bound (BiLMEncoder embedder (n_layers_highway a) fwd bwd
                                 (enc_dropout a) (skip_embs a) cove_emb), d_sent)))
           else
             (let f = (if sent_enc a = ''rnn'' then Bound (LSTM rnn)
                       else if sent_enc a = ''transformer''
                       then Bound (MaskedStackedSelfAttentionEncoder tfm)
                       else Unbound)
              in ebind (read_local ''fwd'' f) (\<lambda>fwd.
                   Inr (Bound (SentenceEncoder embedder (n_layers_highway a) fwd
                                 (skip_embs a) (enc_dropout a) cove_emb), d_sent))))
        else if sent_enc a = ''bow'' then
          Inr (Bound (BoWSentEncoder embedder), d_emb)
        else if sent_enc a = ''rnn'' then
          Inr (Bound (SentenceEncoder embedder (n_layers_highway a) (LSTM rnn)
                        (skip_embs a) (enc_dropout a) cove_emb),
               (1 + bidirectional a) * enc_d_hid a)
        else if sent_enc a = ''transformer'' then
          Inr (Bound (SentenceEncoder embedder (n_layers_highway a)
                        (StackedSelfAttentionEncoder tfm)
                        (skip_embs a) (enc_dropout a) cove_emb), d_sent)
        else Inr (Unbound, d_sent))
       (\<lambda>(sent_encoder, d_sent). Inr (sent_encoder, d_sent + skip_embs a * d_emb)))"

section \<open>Task heads and the model container\<close>

text \<open>
  Arithmetic of Python on a configuration value: \<^verbatim>\<open>4 * d_proj\<close>.
\<close>

fun py_mul :: "int \<Rightarrow> pyval \<Rightarrow> error + pyval" where
  "py_mul k PNone = Inl TypeError"
| "py_mul k (PBool b) = Inr (PInt (k * of_bool b))"
| "py_mul k (PInt i) = Inr (PInt (k * i))"
| "py_mul k (PFloat x) = Inr (PFloat (of_int k * x))"
| "py_mul k (PStr s) = Inr (PStr (concat (replicate (nat k) s)))"

text \<open>
  \<^verbatim>\<open>int(d / 2)\<close>: true division, then truncation towards zero. The quotient is a
  float, exact for every \<^verbatim>\<open>d\<close> of magnitude below \<open>2 ^ 53\<close>, the range of a width;
  beyond it Python rounds the quotient to the nearest float, which this function does
  not follow.
\<close>

definition int_half :: "int \<Rightarrow> int" where
  "int_half d = (if 0 \<le> d then d div 2 else - ((- d) div 2))"

text \<open>
  The modules of \<^verbatim>\<open>modules\<close>, allennlp and torch that the head builders create, as the
  arguments they are built from. A pair-attention module also carries its identity: the
  number it was given when it was created, no two creations sharing one.
\<close>

datatype pooler = Pooler int pyval

datatype classifier = Classifier pyval int task_params

datatype obj =
    NoneObj
  | AttnPairEncoder (oid: nat) rnn_params pyval
  | SingleClassifier pooler classifier
  | PairClassifier pooler classifier (pair_attn_of: obj)
  | Linear int int
  | Decoder embedder int seq2seq

text \<open>
  \<^verbatim>\<open>MultiTaskModel\<close>: the three attributes set by \<^verbatim>\<open>__init__\<close> and the attributes
  added later under a computed name. \<open>next_oid\<close> is the supply of object identities.
\<close>

record model =
  sent_encoder :: sent_encoder
  combine_method :: pyval
  vocab :: vocabulary
  attrs :: "string \<rightharpoonup> obj"
  next_oid :: nat

definition MultiTaskModel :: "args \<Rightarrow> sent_encoder \<Rightarrow> vocabulary \<Rightarrow> model" where
  "MultiTaskModel a enc v =
     \<lparr>sent_encoder = enc, combine_method = sent_combine_method a, vocab = v,
      attrs = Map.empty, next_oid = 0\<rparr>"

definition setattr :: "model \<Rightarrow> string \<Rightarrow> obj \<Rightarrow> model" where
  "setattr m n v = m\<lparr>attrs := (attrs m)(n \<mapsto> v)\<rparr>"

definition hasattr :: "model \<Rightarrow> string \<Rightarrow> bool" where
  "hasattr m n = (attrs m n \<noteq> None)"

definition getattr :: "model \<Rightarrow> string \<Rightarrow> error + obj" where
  "getattr m n = (case attrs m n of None \<Rightarrow> Inl (AttributeError n) | Some v \<Rightarrow> Inr v)"

definition build_single_sentence_module :: "task \<Rightarrow> int \<Rightarrow> task_params \<Rightarrow> error + obj" where
  "build_single_sentence_module task d_inp params =
     (let pooler = Pooler d_inp (d_proj params) in
      case n_classes task of
        None \<Rightarrow> Inl (AttributeError ''n_classes'')
      | Some n \<Rightarrow> Inr (SingleClassifier pooler (Classifier (d_proj params) n params)))"

text \<open>
  The inner function \<^verbatim>\<open>build_pair_attn(d_in, use_attn)\<close>; its free variable
  \<^verbatim>\<open>d_inp\<close> is the enclosing function's argument.
\<close>

definition build_pair_attn ::
  "model \<Rightarrow> int \<Rightarrow> task_params \<Rightarrow> int \<Rightarrow> pyval \<Rightarrow> obj \<times> model" where
  "build_pair_attn m d_inp params d_in use_attn =
     (if \<not> truthy use_attn then (NoneObj, m)
      else
        (let d_inp_model = 2 * d_in;
             d_hid_model = int_half d_inp;
             modeling_layer = \<lparr>input_size = d_inp_model, rnn_bidirectional = 1,
                               hidden_size = d_hid_model, num_layers = 1\<rparr>
         in (AttnPairEncoder (next_oid m) modeling_layer (dropout params),
             m\<lparr>next_oid := Suc (next_oid m)\<rparr>)))"

definition build_pair_sentence_module ::
  "task \<Rightarrow> int \<Rightarrow> model \<Rightarrow> task_params \<Rightarrow> error + (obj \<times> model)" where
  "build_pair_sentence_module task d_inp m params =
     (let pooler = Pooler d_inp (d_proj params);
          (pair_attn, m') =
            (if truthy (shared_pair_attn params) then
               (if \<not> hasattr m ''pair_attn'' then
                  (let (pa, m1) = build_pair_attn m d_inp params d_inp (attn params)
                   in (pa, setattr m1 ''pair_attn'' pa))
                else (the (attrs m ''pair_attn''), m))
             else build_pair_attn m d_inp params d_inp (attn params));
          n = (case n_classes task of Some n \<Rightarrow> n | None \<Rightarrow> 1)
      in ebind (py_mul 4 (d_proj params)) (\<lambda>d4.
           Inr (PairClassifier pooler (Classifier d4 n params) pair_attn, m')))"

text \<open>\<^verbatim>\<open>build_lm\<close> and \<^verbatim>\<open>build_decoder\<close>\<close>

definition build_lm :: "task \<Rightarrow> int \<Rightarrow> args \<Rightarrow> obj" where
  "build_lm task d_inp a = Linear d_inp (max_word_v_size a)"

fun token_embedder_dim :: "token_embedder \<Rightarrow> int" where
  "token_embedder_dim (Embedding n d pre pad) = d"
| "token_embedder_dim (TokenCharactersEncoder n d nf fs dr) = d"
| "token_embedder_dim ElmoCharacterEncoder = 512"
| "token_embedder_dim (ElmoTokenEmbedder dr) = 1024"

definition get_output_dim :: "embedder \<Rightarrow> int" where
  "get_output_dim e = sum_list (map (\<lambda>(k, t). token_embedder_dim t) e)"

definition build_decoder :: "task \<Rightarrow> int \<Rightarrow> vocabulary \<Rightarrow> embedder \<Rightarrow> args \<Rightarrow> obj \<times> obj" where
  "build_decoder task d_inp v embedder a =
     (let rnn = LSTM \<lparr>input_size = get_output_dim embedder, rnn_bidirectional = 0,
                      hidden_size = d_hid_dec a, num_layers = n_layers_dec a\<rparr>;
          decoder = Decoder embedder 0 rnn;
          hid2voc = Linear (d_hid_dec a) (max_word_v_size a)
      in (decoder, hid2voc))"

text \<open>\<^verbatim>\<open>build_modules\<close>: one step of the loop, and the loop.\<close>

definition build_module :: "args \<Rightarrow> int \<Rightarrow> embedder \<Rightarrow> model \<Rightarrow> task \<Rightarrow> error + model" where
  "build_module a d_sent embedder m task =
     ebind (get_task_specific_params (opts a) (name task)) (\<lambda>task_params.
       if isinstance (tclass task) SingleClassificationTask then
         ebind (build_single_sentence_module task d_sent task_params) (\<lambda>module.
           Inr (setattr m (name task @ ''_mdl'') module))
       else if is_pair (tclass task) then
         ebind (build_pair_sentence_module task d_sent m task_params) (\<lambda>(module, m').
           Inr (setattr m' (name task @ ''_mdl'') module))
       else if isinstance (tclass task) LanguageModelingTask then
         Inr (setattr m (name task @ ''_hid2voc'') (build_lm task d_sent a))
       else if isinstance (tclass task) SequenceGenerationTask then
         (let (decoder, hid2voc) = build_decoder task d_sent (vocab m) embedder a
          in Inr (setattr (setattr m (name task @ ''_decoder'') decoder)
                    (name task @ ''_hid2voc'') hid2voc))
       else if isinstance (tclass task) RankingTask then Inr m
       else Inl (ValueError (''Module not found for '' @ name task)))"

fun build_modules :: "task list \<Rightarrow> model \<Rightarrow> int \<Rightarrow> embedder \<Rightarrow> args \<Rightarrow> error + model" where
  "build_modules [] m d_sent embedder a = Inr m"
| "build_modules (task # tasks) m d_sent embedder a =
     ebind (build_module a d_sent embedder m task) (\<lambda>m'.
       build_modules tasks m' d_sent embedder a)"

text \<open>
  \<^verbatim>\<open>build_model\<close>. Moving the model to an accelerator and logging it do not change what
  is attached to it and are left out.
\<close>

definition build_model ::
  "bool \<Rightarrow> args \<Rightarrow> vocabulary \<Rightarrow> nat list option \<Rightarrow> task list \<Rightarrow> error + model" where
  "build_model cove_importable a v pretrained_embs tasks =
     ebind (build_embeddings cove_importable a v pretrained_embs) (\<lambda>(d_emb, embedder, cove_emb).
     ebind (build_sent_encoder a d_emb embedder cove_emb tasks) (\<lambda>(enc, d_sent).
     ebind (read_local ''sent_encoder'' enc) (\<lambda>enc.
       build_modules tasks (MultiTaskModel a enc v) d_sent embedder a)))"

section \<open>Forward pass\<close>

text \<open>
  A batch maps a field name to a text field (a dictionary from indexer name to a matrix
  of token ids, one row per sentence) or to a tensor of labels, which the code hands to
  torch without looking inside.
\<close>

type_synonym textfield = "string \<rightharpoonup> nat list list"

datatype 'l bval = TextField textfield | Tensor 'l

type_synonym 'l batch = "string \<rightharpoonup> 'l bval"

text \<open>
  The numeric layer, which is not part of the code: what the modules and the loss
  functions of torch compute, over any type \<open>'a\<close> of numbers. An encoded batch is a list
  (sentences) of lists (positions) of vectors, its mask one boolean for each position.
  \<open>nll row t\<close> is the negative log-likelihood of class \<open>t\<close> under the logits \<open>row\<close>,
  \<open>mean\<close> the average that reduces the per-row losses, \<open>zero\<close> the number 0.
\<close>

record ('a, 'l) torch =
  encode :: "sent_encoder \<Rightarrow> textfield \<Rightarrow> 'a list list list \<times> bool list list"
  encode_bilm :: "sent_encoder \<Rightarrow> textfield \<Rightarrow> textfield
                  \<Rightarrow> 'a list list list \<times> bool list list"
  output_dim :: "sent_encoder \<Rightarrow> int"
  single_head :: "obj \<Rightarrow> 'a list list list \<Rightarrow> bool list list \<Rightarrow> 'a list list"
  pair_head :: "obj \<Rightarrow> 'a list list list \<Rightarrow> 'a list list list
                \<Rightarrow> bool list list \<Rightarrow> bool list list \<Rightarrow> 'a list list"
  linear :: "obj \<Rightarrow> 'a list \<Rightarrow> 'a list"
  zero :: 'a
  nll :: "'a list \<Rightarrow> nat \<Rightarrow> 'a"
  mean :: "'a list \<Rightarrow> 'a"
  cross_entropy_labels :: "'a list list \<Rightarrow> 'l \<Rightarrow> 'a"
  mse_loss :: "'a list list \<Rightarrow> 'l \<Rightarrow> 'a"

datatype 'a outval = Logits "'a list list" | Loss 'a

type_synonym 'a out = "string \<rightharpoonup> 'a outval"

definition batch_get :: "'l batch \<Rightarrow> string \<Rightarrow> error + 'l bval" where
  "batch_get batch k = (case batch k of None \<Rightarrow> Inl (KeyError k) | Some v \<Rightarrow> Inr v)"

fun as_textfield :: "'l bval \<Rightarrow> error + textfield" where
  "as_textfield (TextField f) = Inr f"
| "as_textfield (Tensor l) = Inl TypeError"

fun as_tensor :: "'l bval \<Rightarrow> error + 'l" where
  "as_tensor (Tensor l) = Inr l"
| "as_tensor (TextField f) = Inl (AttributeError ''squeeze'')"

definition field_get :: "textfield \<Rightarrow> string \<Rightarrow> error + nat list list" where
  "field_get f k = (case f k of None \<Rightarrow> Inl (KeyError k) | Some v \<Rightarrow> Inr v)"

text \<open>Calling a scoring callback that is \<^verbatim>\<open>None\<close> raises \<^verbatim>\<open>TypeError\<close>.\<close>

definition call_scorer :: "bool \<Rightarrow> error + unit" where
  "call_scorer present = (if present then Inr () else Inl TypeError)"

definition single_sentence_forward ::
  "('a, 'l) torch \<Rightarrow> model \<Rightarrow> 'l batch \<Rightarrow> task \<Rightarrow> error + 'a out" where
  "single_sentence_forward T m batch task =
     ebind (batch_get batch ''input1'') (\<lambda>b1.
     ebind (as_textfield b1) (\<lambda>input1.
       let (sent_embs, sent_mask) = encode T (sent_encoder m) input1 in
       ebind (getattr m (name task @ ''_mdl'')) (\<lambda>classifier.
         let logits = single_head T classifier sent_embs sent_mask in
         ebind
           (if batch ''labels'' \<noteq> None then
              ebind (as_tensor (the (batch ''labels''))) (\<lambda>labels.
                let out = [''loss'' \<mapsto> Loss (cross_entropy_labels T logits labels)] in
                if isinstance (tclass task) CoLATask then
                  ebind (call_scorer (scorer2 task)) (\<lambda>_.
                  ebind (call_scorer (scorer1 task)) (\<lambda>_. Inr out))
                else
                  ebind (call_scorer (scorer1 task)) (\<lambda>_. Inr out))
            else Inr Map.empty)
           (\<lambda>out. Inr (out(''logits'' \<mapsto> Logits logits))))))"

definition pair_sentence_forward ::
  "('a, 'l) torch \<Rightarrow> model \<Rightarrow> 'l batch \<Rightarrow> task \<Rightarrow> error + 'a out" where
  "pair_sentence_forward T m batch task =
     ebind (batch_get batch ''input1'') (\<lambda>b1.
     ebind (as_textfield b1) (\<lambda>input1.
       let (sent1, mask1) = encode T (sent_encoder m) input1 in
       ebind (batch_get batch ''input2'') (\<lambda>b2.
       ebind (as_textfield b2) (\<lambda>input2.
         let (sent2, mask2) = encode T (sent_encoder m) input2 in
         ebind (getattr m (name task @ ''_mdl'')) (\<lambda>classifier.
           let logits = pair_head T classifier sent1 sent2 mask1 mask2;
               out = [''logits'' \<mapsto> Logits logits]
           in
           if batch ''labels'' \<noteq> None then
             ebind (as_tensor (the (batch ''labels''))) (\<lambda>labels.
               if isinstance (tclass task) JOCITask \<or> isinstance (tclass task) STSBTask then
                 (let out' = out(''loss'' \<mapsto> Loss (mse_loss T logits labels)) in
                  ebind (call_scorer (scorer1 task)) (\<lambda>_.
                  ebind (call_scorer (scorer2 task)) (\<lambda>_. Inr out')))
               else
                 (let out' = out(''loss'' \<mapsto> Loss (cross_entropy_labels T logits labels)) in
                  ebind (call_scorer (scorer1 task)) (\<lambda>_. Inr out')))
           else Inr out)))))"

definition seq_gen_forward ::
  "('a, 'l) torch \<Rightarrow> model \<Rightarrow> 'l batch \<Rightarrow> task \<Rightarrow> error + 'a out" where
  "seq_gen_forward T m batch task =
     ebind (batch_get batch ''inputs'') (\<lambda>b.
     ebind (as_textfield b) (\<lambda>inputs.
     ebind (field_get inputs ''words'') (\<lambda>words.
       let (sent, sent_mask) = encode T (sent_encoder m) inputs in
       Inr Map.empty)))"

definition ranking_forward ::
  "('a, 'l) torch \<Rightarrow> model \<Rightarrow> 'l batch \<Rightarrow> task \<Rightarrow> error + 'a out" where
  "ranking_forward T m batch task = Inl NotImplementedError"

text \<open>
  Tensor operations of the language-modelling pass. The mask that the encoder returns has
  one entry for each position and broadcasts over the vector there, so
  \<^verbatim>\<open>sent.masked_fill(1 - mask.byte(), 0)\<close> replaces the whole vector of a position whose
  mask is 0 by zeros.
\<close>

definition masked_fill ::
  "('a, 'l) torch \<Rightarrow> 'a list list list \<Rightarrow> bool list list \<Rightarrow> 'a list list list" where
  "masked_fill T sent smask =
     map (\<lambda>(vs, ms). map (\<lambda>(v, keep). if keep then v else map (\<lambda>_. zero T) v) (zip vs ms))
         (zip sent smask)"

text \<open>
  The encoder answers with one vector and one mask entry for each position of the token
  matrix it was given; \<open>same_shape\<close> checks that. Then
  \<^verbatim>\<open>hid2voc(sent).view(b_size * seq_len, -1)\<close> is the list of the projected vectors,
  sentence after sentence. Where the shapes differ, torch fails or regroups the numbers;
  the model reports \<open>ShapeError\<close> there and follows torch no further.
\<close>

definition same_shape :: "'b list list \<Rightarrow> 'c list list \<Rightarrow> bool" where
  "same_shape xs ys = (map length xs = map length ys)"

definition project_rows :: "('a, 'l) torch \<Rightarrow> obj \<Rightarrow> 'a list list list \<Rightarrow> 'a list list" where
  "project_rows T hid2voc sent = concat (map (map (linear T hid2voc)) sent)"

text \<open>Python slices \<^verbatim>\<open>v[:k]\<close> and \<^verbatim>\<open>v[k:]\<close>; a negative \<^verbatim>\<open>k\<close> counts from the end.\<close>

definition slice_to :: "int \<Rightarrow> 'a list \<Rightarrow> 'a list" where
  "slice_to k v = (if 0 \<le> k then take (nat k) v else take (length v - nat (- k)) v)"

definition slice_from :: "int \<Rightarrow> 'a list \<Rightarrow> 'a list" where
  "slice_from k v = (if 0 \<le> k then drop (nat k) v else drop (length v - nat (- k)) v)"

text \<open>
  \<^verbatim>\<open>F.cross_entropy(logits, targs, ignore_index=pad_idx)\<close> as torch documents it: one
  target for each row of logits, the rows whose target is \<^verbatim>\<open>ignore_index\<close> left out,
  the losses of the other rows averaged.
\<close>

definition cross_entropy ::
  "('a, 'l) torch \<Rightarrow> 'a list list \<Rightarrow> nat list \<Rightarrow> nat \<Rightarrow> error + 'a" where
  "cross_entropy T logits targs ignore_index =
     (if length logits \<noteq> length targs then Inl ShapeError
      else Inr (mean T (map (\<lambda>(row, t). nll T row t)
                         (filter (\<lambda>(row, t). t \<noteq> ignore_index) (zip logits targs)))))"

fun is_BiLMEncoder :: "sent_encoder \<Rightarrow> bool" where
  "is_BiLMEncoder (BiLMEncoder e n f b d s c) = True"
| "is_BiLMEncoder _ = False"

text \<open>
  The two branches of \<^verbatim>\<open>_lm_forward\<close>: the logits from the masked output of the
  encoder, and the targets from the batch. In the bidirectional branch the output is split
  along the feature axis, both halves are projected, and logits and targets of the two
  directions are concatenated.
\<close>

definition lm_logits ::
  "('a, 'l) torch \<Rightarrow> model \<Rightarrow> obj \<Rightarrow> 'a list list list \<Rightarrow> 'a list list" where
  "lm_logits T m hid2voc sent =
     (if \<not> is_BiLMEncoder (sent_encoder m) then project_rows T hid2voc sent
      else
        let split = int_half (output_dim T (sent_encoder m));
            fwd = map (map (slice_to split)) sent;
            bwd = map (map (slice_from split)) sent;
            logits_fwd = project_rows T hid2voc fwd;
            logits_bwd = project_rows T hid2voc bwd
        in logits_fwd @ logits_bwd)"

definition lm_targs :: "model \<Rightarrow> 'l batch \<Rightarrow> error + nat list" where
  "lm_targs m batch =
     ebind (batch_get batch ''targs'') (\<lambda>bt.
     ebind (as_textfield bt) (\<lambda>ft.
     ebind (field_get ft ''words'') (\<lambda>trg_fwd.
       if \<not> is_BiLMEncoder (sent_encoder m) then Inr (concat trg_fwd)
       else
         ebind (batch_get batch ''targs_b'') (\<lambda>bb.
         ebind (as_textfield bb) (\<lambda>fb.
         ebind (field_get fb ''words'') (\<lambda>trg_bwd.
           Inr (concat trg_fwd @ concat trg_bwd)))))))"

definition lm_logits_targs ::
  "('a, 'l) torch \<Rightarrow> model \<Rightarrow> 'l batch \<Rightarrow> task \<Rightarrow> nat list list
   \<Rightarrow> 'a list list list \<Rightarrow> bool list list \<Rightarrow> error + ('a list list \<times> nat list)" where
  "lm_logits_targs T m batch task words sent smask =
     (if \<not> (same_shape words sent \<and> same_shape words smask) then Inl ShapeError
      else
        let sent = masked_fill T sent smask in
        ebind (getattr m (name task @ ''_hid2voc'')) (\<lambda>hid2voc.
          let logits = lm_logits T m hid2voc sent in
          ebind (lm_targs m batch) (\<lambda>targs. Inr (logits, targs))))"

definition lm_encode ::
  "('a, 'l) torch \<Rightarrow> model \<Rightarrow> 'l batch \<Rightarrow> textfield
   \<Rightarrow> error + ('a list list list \<times> bool list list)" where
  "lm_encode T m batch inp =
     (if \<not> is_BiLMEncoder (sent_encoder m) then Inr (encode T (sent_encoder m) inp)
      else
        ebind (batch_get batch ''input_bwd'') (\<lambda>bb.
        ebind (as_textfield bb) (\<lambda>input_bwd.
          Inr (encode_bilm T (sent_encoder m) inp input_bwd))))"

definition lm_forward ::
  "('a, 'l) torch \<Rightarrow> model \<Rightarrow> 'l batch \<Rightarrow> task \<Rightarrow> error + 'a out" where
  "lm_forward T m batch task =
     ebind (batch_get batch ''input'') (\<lambda>bi.
     ebind (as_textfield bi) (\<lambda>inp.
     ebind (field_get inp ''words'') (\<lambda>words.
     ebind (lm_encode T m batch inp) (\<lambda>(sent, smask).
     ebind (lm_logits_targs T m batch task words sent smask) (\<lambda>(logits, targs).
       let out = [''logits'' \<mapsto> Logits logits];
           pad_idx = token_index (vocab m) (padding_token (vocab m))
       in
       ebind (cross_entropy T logits targs pad_idx) (\<lambda>loss.
       ebind (call_scorer (scorer1 task)) (\<lambda>_.
         Inr (out(''loss'' \<mapsto> Loss loss)))))))))"

text \<open>\<^verbatim>\<open>MultiTaskModel.forward\<close>\<close>

definition forward ::
  "('a, 'l) torch \<Rightarrow> model \<Rightarrow> task \<Rightarrow> 'l batch \<Rightarrow> error + 'a out" where
  "forward T m task batch =
     (if isinstance (tclass task) SingleClassificationTask then
        single_sentence_forward T m batch task
      else if is_pair (tclass task) then pair_sentence_forward T m batch task
      else if isinstance (tclass task) LanguageModelingTask then lm_forward T m batch task
      else if isinstance (tclass task) SequenceGenerationTask then
        seq_gen_forward T m batch task
      else if isinstance (tclass task) RankingTask then ranking_forward T m batch task
      else Inl (ValueError ''Task-specific components not found!''))"

section \<open>Notions of the specification\<close>

text \<open>
  The rule as the specification words it: "falling back from a task-specific override
  (\<^verbatim>\<open>"<task>_<attr>"\<close>) to a global default (\<^verbatim>\<open>"<attr>"\<close>) when the override is
  absent".
\<close>

definition resolve :: "namespace \<Rightarrow> string \<Rightarrow> string \<Rightarrow> pyval option" where
  "resolve ns task a = (case ns (task @ ''_'' @ a) of Some v \<Rightarrow> Some v | None \<Rightarrow> ns a)"



text \<open>The categories that the dispatcher of \<^verbatim>\<open>forward\<close> knows.\<close>

definition recognized :: "task_class \<Rightarrow> bool" where
  "recognized c = (isinstance c SingleClassificationTask \<or> is_pair c
                   \<or> isinstance c LanguageModelingTask \<or> isinstance c SequenceGenerationTask
                   \<or> isinstance c RankingTask)"

text \<open>
  Two matrices of logits for the same targets that differ at most in the rows whose
  target is the padding index.
\<close>

definition agree_off_pad :: "nat \<Rightarrow> nat list \<Rightarrow> 'a list list \<Rightarrow> 'a list list \<Rightarrow> bool" where
  "agree_off_pad pad targs L L' =
     (length L = length targs \<and> length L' = length targs
      \<and> (\<forall>(t, r, r') \<in> set (zip targs (zip L L')). t \<noteq> pad \<longrightarrow> r = r'))"

text \<open>
  Sharing in a model container: every pair classifier attached to it holds, as its
  attention module, the very object attached under \<^verbatim>\<open>pair_attn\<close>.
\<close>

definition shares_attn :: "model \<Rightarrow> bool" where
  "shares_attn m = (\<forall>n p c pa. attrs m n = Some (PairClassifier p c pa)
                       \<longrightarrow> attrs m ''pair_attn'' = Some pa)"

section \<open>Example inputs\<close>

definition opts_shared :: namespace where
  "opts_shared = map_of
     [(''classifier'', PStr ''mlp''), (''classifier_hid_dim'', PInt 512),
      (''d_proj'', PInt 512), (''shared_pair_attn'', PInt 1), (''pair_attn'', PInt 1),
      (''classifier_dropout'', PFloat (1/5)), (''rte_pair_attn'', PInt 0),
      (''rte_d_proj'', PInt 128)]"

definition vocab0 :: vocabulary where
  "vocab0 = \<lparr>n_tokens = 100, n_chars = 50,
             token_index = (\<lambda>s. if s = ''@@PADDING@@'' then 0 else 1),
             padding_token = ''@@PADDING@@''\<rparr>"

definition args0 :: args where
  "args0 = \<lparr>word_embs = ''glove'', d_word = 300, d_char = 100, cove = False,
            char_embs = True, char_filter_sizes = ''2,3,4,5'', n_char_filters = 100,
            dropout_embs = 1/5, elmo = False, elmo_chars_only = False,
            sent_enc = ''rnn'', bidirectional = 1, enc_d_hid = 512, d_tproj = 64,
            d_ff = 2048, n_layers_enc = 1, n_heads = 8, n_layers_highway = 1,
            enc_dropout = 1/5, skip_embs = 1, max_word_v_size = 30000,
            d_hid_dec = 300, n_layers_dec = 1, sent_combine_method = PStr ''max'',
            opts = opts_shared\<rparr>"


definition single_task :: task where
  "single_task = \<lparr>name = ''sst'', tclass = SSTTask, n_classes = Some 2,
                   scorer1 = True, scorer2 = False\<rparr>"

definition torch0 :: "(int, int list) torch" where
  "torch0 = \<lparr>encode = (\<lambda>enc f. case f ''words'' of None \<Rightarrow> ([], [])
                        | Some ws \<Rightarrow> (map (map (\<lambda>t. [int t, 1])) ws, map (map (\<lambda>t. t \<noteq> 0)) ws)),
             encode_bilm = (\<lambda>enc f b. case f ''words'' of None \<Rightarrow> ([], [])
                        | Some ws \<Rightarrow> (map (map (\<lambda>t. [int t, 1, int t, 2])) ws,
                                      map (map (\<lambda>t. t \<noteq> 0)) ws)),
             output_dim = (\<lambda>enc. 4),
             single_head = (\<lambda>h s m. map (\<lambda>x. [0, 1]) s),
             pair_head = (\<lambda>h s1 s2 m1 m2. map (\<lambda>x. [0, 1]) s1),
             linear = (\<lambda>h v. v),
             zero = 0,
             nll = (\<lambda>row t. sum_list row - int t),
             mean = (\<lambda>xs. if xs = [] then 0 else sum_list xs div int (length xs)),
             cross_entropy_labels = (\<lambda>logits l. 1),
             mse_loss = (\<lambda>logits l. 2)\<rparr>"

definition model0 :: model where
  "model0 = (MultiTaskModel args0 (BoWSentEncoder []) vocab0)
              \<lparr>attrs := [''sst_mdl'' \<mapsto> Linear 2 2, ''lm_hid2voc'' \<mapsto> Linear 2 5]\<rparr>"

definition ranking_task :: task where
  "ranking_task = \<lparr>name = ''rank'', tclass = RankingTask, n_classes = None,
                    scorer1 = True, scorer2 = False\<rparr>"

definition other_task :: task where
  "other_task = \<lparr>name = ''other'', tclass = OtherTask, n_classes = None,
                  scorer1 = True, scorer2 = False\<rparr>"

definition seq_task :: task where
  "seq_task = \<lparr>name = ''mt'', tclass = SequenceGenerationTask, n_classes = None,
                scorer1 = True, scorer2 = False\<rparr>"

definition lm_task :: task where
  "lm_task = \<lparr>name = ''lm'', tclass = LanguageModelingTask, n_classes = None,
               scorer1 = True, scorer2 = False\<rparr>"

definition batch0 :: "int list batch" where
  "batch0 = [''input1'' \<mapsto> TextField [''words'' \<mapsto> [[3, 4, 0], [5, 0, 0]]],
             ''inputs'' \<mapsto> TextField [''words'' \<mapsto> [[3, 4, 0], [5, 0, 0]]],
             ''input'' \<mapsto> TextField [''words'' \<mapsto> [[3, 4, 0], [5, 0, 0]]],
             ''targs'' \<mapsto> TextField [''words'' \<mapsto> [[4, 2, 0], [2, 0, 0]]],
             ''labels'' \<mapsto> Tensor [1, 0]]"

definition torch1 :: "(int, int list) torch" where
  "torch1 = torch0\<lparr>linear := (\<lambda>h v. if v = [0, 0] then [7, 7] else v)\<rparr>"

definition rte_task :: task where
  "rte_task = \<lparr>name = ''rte'', tclass = PairClassificationTask, n_classes = Some 2,
                scorer1 = True, scorer2 = False\<rparr>"

definition sts_task :: task where
  "sts_task = \<lparr>name = ''sts-b'', tclass = STSBTask, n_classes = None,
                scorer1 = True, scorer2 = True\<rparr>"

definition tasks0 :: "task list" where
  "tasks0 = [rte_task, single_task, sts_task, lm_task, seq_task, ranking_task]"

definition fresh0 :: model where
  "fresh0 = MultiTaskModel args0 (BoWSentEncoder []) vocab0"

definition attn0 :: obj where
  "attn0 = AttnPairEncoder 0
             \<lparr>input_size = 2848, rnn_bidirectional = 1, hidden_size = 712, num_layers = 1\<rparr>
             (PFloat (1 / 5))"

definition params0 :: "int \<Rightarrow> task_params" where
  "params0 dp = \<lparr>cls_type = PStr ''mlp'', d_hid = PInt 512, d_proj = PInt dp,
                  shared_pair_attn = PInt 1, attn = PInt 1, dropout = PFloat (1 / 5)\<rparr>"

definition built0 :: model where
  "built0 = fresh0
     \<lparr>attrs :=
        [''pair_attn'' \<mapsto> attn0,
         ''rte_mdl'' \<mapsto> PairClassifier (Pooler 1424 (PInt 128))
                           (Classifier (PInt 512) 2 (params0 128)) attn0,
         ''sst_mdl'' \<mapsto> SingleClassifier (Pooler 1424 (PInt 512))
                           (Classifier (PInt 512) 2 (params0 512)),
         ''sts-b_mdl'' \<mapsto> PairClassifier (Pooler 1424 (PInt 512))
                             (Classifier (PInt 2048) 1 (params0 512)) attn0,
         ''lm_hid2voc'' \<mapsto> Linear 1424 30000,
         ''mt_decoder'' \<mapsto> Decoder [] 0
             (LSTM \<lparr>input_size = 0, rnn_bidirectional = 0, hidden_size = 300,
                     num_layers = 1\<rparr>),
         ''mt_hid2voc'' \<mapsto> Linear 300 30000],
      next_oid := 1\<rparr>"


section \<open>Properties of the hyperparameter resolution\<close>

lemma ebind_Inr_iff: "ebind x f = Inr y \<longleftrightarrow> (\<exists>z. x = Inr z \<and> f z = Inr y)"
  by (cases x) auto

lemma get_task_attr_resolve: "get_task_attr ns task a = Inr v \<Longrightarrow> resolve ns task a = Some v"
  by (auto simp: get_task_attr_def resolve_def hasattr_ns_def getattr_ns_def task_key_def
           split: if_splits option.splits)

lemma getattr_ns_Some: "getattr_ns ns a = Inr v \<Longrightarrow> ns a = Some v"
  by (auto simp: getattr_ns_def split: option.splits)

lemma opts_shared_rte:
  "get_task_specific_params opts_shared ''rte'' =
     Inr \<lparr>cls_type = PStr ''mlp'', d_hid = PInt 512, d_proj = PInt 128,
          shared_pair_attn = PInt 1, attn = PInt 1, dropout = PFloat (1/5)\<rparr>"
  by (simp add: get_task_specific_params_def get_task_attr_def hasattr_ns_def getattr_ns_def
        task_key_def opts_shared_def)

text \<open>
  Claim C9, as stated, fails: with \<^verbatim>\<open>shared_pair_attn\<close> set, the task-specific key
  \<^verbatim>\<open>rte_pair_attn\<close> is present with value 0 and the resolved \<^verbatim>\<open>attn\<close> is the global 1.
\<close>

theorem shared_ignores_task_override:
  "opts_shared ''rte_pair_attn'' = Some (PInt 0) \<and>
   map_sum id attn (get_task_specific_params opts_shared ''rte'') = Inr (PInt 1)"
  by (simp add: opts_shared_rte) (simp add: opts_shared_def)

text \<open>
  Claim C9, amended: whenever \<^verbatim>\<open>get_task_specific_params\<close> returns, the classifier
  type, the classifier hidden dimension and \<^verbatim>\<open>d_proj\<close> are the task-specific value when
  that key is present and the global value otherwise; \<^verbatim>\<open>pair_attn\<close> and the classifier
  dropout are resolved the same way when \<^verbatim>\<open>shared_pair_attn\<close> is false, and are the
  global values, whatever the task-specific keys hold, when it is true.
\<close>

theorem get_task_specific_params_resolution:
  assumes "get_task_specific_params ns task = Inr p"
  shows "resolve ns task ''classifier'' = Some (cls_type p)
       \<and> resolve ns task ''classifier_hid_dim'' = Some (d_hid p)
       \<and> resolve ns task ''d_proj'' = Some (d_proj p)
       \<and> ns ''shared_pair_attn'' = Some (shared_pair_attn p)
       \<and> (if truthy (shared_pair_attn p)
          then ns ''pair_attn'' = Some (attn p) \<and> ns ''classifier_dropout'' = Some (dropout p)
          else resolve ns task ''pair_attn'' = Some (attn p)
             \<and> resolve ns task ''classifier_dropout'' = Some (dropout p))"
  using assms unfolding get_task_specific_params_def
  by (auto simp: ebind_Inr_iff split: if_splits dest!: get_task_attr_resolve getattr_ns_Some)

theorem get_task_specific_params_resolution_witness:
  "get_task_specific_params opts_shared ''rte'' =
     Inr \<lparr>cls_type = PStr ''mlp'', d_hid = PInt 512, d_proj = PInt 128,
          shared_pair_attn = PInt 1, attn = PInt 1, dropout = PFloat (1/5)\<rparr>
   \<and> resolve opts_shared ''rte'' ''d_proj'' = Some (PInt 128)
   \<and> resolve opts_shared ''rte'' ''classifier'' = Some (PStr ''mlp'')
   \<and> opts_shared ''pair_attn'' = Some (PInt 1)"
  using get_task_specific_params_resolution [OF opts_shared_rte] opts_shared_rte
  by simp

section \<open>Properties of the embedding builder\<close>

lemma ebind_Inl_iff: "ebind x f = Inl e \<longleftrightarrow> (x = Inl e \<or> (\<exists>z. x = Inr z \<and> f z = Inl e))"
  by (cases x) auto

lemma filter_sizes0: "map_err py_int (split_on CHR '','' ''2,3,4,5'') = Inr [2,3,4,5]"
  by (simp add: py_int_def strip_def is_space_def parse_unsigned_def digit_val_def)

lemma py_int_separator: "py_int [CHR ''2'', CHR 0x1F] = Inl (ValueError ''invalid literal for int()'')"
  by (simp add: py_int_def strip_def is_space_def parse_unsigned_def digit_val_def)

lemma char_step_separator:
  "char_step (args0\<lparr>char_filter_sizes := [CHR ''2'', CHR 0x1F]\<rparr>) vocab0 d te =
     Inl (ValueError ''invalid literal for int()'')"
  by (simp add: char_step_def args0_def py_int_def strip_def is_space_def parse_unsigned_def
        digit_val_def)













text \<open>
  Claim C7 against the code: CoVe is enabled, its import fails, word and character
  embeddings are on. The \<^verbatim>\<open>except ImportError\<close> branch logs and goes on, but it leaves
  \<^verbatim>\<open>cove_emb\<close> unassigned, and the \<^verbatim>\<open>return\<close> statement that reads it raises
  \<^verbatim>\<open>UnboundLocalError\<close>: construction aborts instead of continuing without CoVe.
\<close>

theorem cove_import_failure_aborts:
  "build_embeddings False (args0\<lparr>cove := True\<rparr>) vocab0 None =
     Inl (UnboundLocalError ''cove_emb'')"
  by (simp add: build_embeddings_def word_step_def cove_step_def char_step_def elmo_step_def
        args0_def vocab0_def Let_def py_int_def strip_def is_space_def parse_unsigned_def
        digit_val_def)

text \<open>
  Claim C10, as stated, fails: CoVe enabled, word embeddings \<^verbatim>\<open>'none'\<close>, and the import
  of \<^verbatim>\<open>cove\<close> failing. The construction that reads the word-embedding module is never
  reached, and with no other source the call ends in the declared assertion error, not
  in a name error.
\<close>

theorem cove_without_words_import_failure:
  "build_embeddings False (args0\<lparr>cove := True, word_embs := ''none'', char_embs := False\<rparr>)
     vocab0 None = Inl (AssertionError ''You turned off all the embeddings, ya goof!'')"
  by (simp add: build_embeddings_def word_step_def cove_step_def char_step_def elmo_step_def
        args0_def vocab0_def Let_def)

text \<open>
  Claim C10, amended: for every configuration with CoVe enabled and word embeddings set
  to \<^verbatim>\<open>'none'\<close> in which the import of \<^verbatim>\<open>cove\<close> succeeds, the CoVe construction reads
  the variable \<^verbatim>\<open>embeddings\<close> that was never assigned, and \<^verbatim>\<open>build_embeddings\<close> fails
  with \<^verbatim>\<open>UnboundLocalError\<close>, a name error, whatever the other options are.
\<close>

theorem cove_without_words_name_error:
  assumes "cove a" and "word_embs a = ''none''"
  shows "build_embeddings True a v pre = Inl (UnboundLocalError ''embeddings'')
         \<and> is_name_error (UnboundLocalError ''embeddings'')"
  using assms by (simp add: build_embeddings_def word_step_def cove_step_def)

theorem cove_without_words_name_error_witness:
  "cove (args0\<lparr>cove := True, word_embs := ''none''\<rparr>) \<and>
   word_embs (args0\<lparr>cove := True, word_embs := ''none''\<rparr>) = ''none'' \<and>
   build_embeddings True (args0\<lparr>cove := True, word_embs := ''none''\<rparr>) vocab0 None
     = Inl (UnboundLocalError ''embeddings'')"
  using cove_without_words_name_error [of "args0\<lparr>cove := True, word_embs := ''none''\<rparr>" vocab0 None]
  by (simp add: args0_def)

section \<open>Properties of the sentence encoder builder\<close>

text \<open>
  Claim C3: without a language-modelling task, for the encoder types \<^verbatim>\<open>bow\<close>,
  \<^verbatim>\<open>rnn\<close> and \<^verbatim>\<open>transformer\<close> and a skip-embeddings flag that is 0 or 1, the encoder
  is built and \<^verbatim>\<open>d_sent\<close> is \<^verbatim>\<open>d_emb\<close> for \<^verbatim>\<open>bow\<close>, \<^verbatim>\<open>(1 + bidirectional) * d_hid\<close>
  for \<^verbatim>\<open>rnn\<close>, \<^verbatim>\<open>d_hid\<close> for \<^verbatim>\<open>transformer\<close>, plus \<^verbatim>\<open>d_emb\<close> exactly when the flag
  is set.
\<close>

theorem build_sent_encoder_d_sent:
  assumes "\<forall>t \<in> set tasks. \<not> isinstance (tclass t) LanguageModelingTask"
      and "sent_enc a \<in> {''bow'', ''rnn'', ''transformer''}"
      and "skip_embs a \<in> {0, 1}"
  shows "\<exists>enc. build_sent_encoder a d_emb e c tasks =
           Inr (Bound enc,
                (if sent_enc a = ''bow'' then d_emb
                 else if sent_enc a = ''rnn'' then (1 + bidirectional a) * enc_d_hid a
                 else enc_d_hid a)
                + (if skip_embs a = 1 then d_emb else 0))"
  using assms by (auto simp: build_sent_encoder_def Let_def)

theorem build_sent_encoder_d_sent_witness:
  "\<not> isinstance (tclass single_task) LanguageModelingTask
   \<and> sent_enc args0 \<in> {''bow'', ''rnn'', ''transformer''}
   \<and> skip_embs (args0\<lparr>skip_embs := 0\<rparr>) \<in> {0, 1}
   \<and> map_sum id snd (build_sent_encoder (args0\<lparr>skip_embs := 0\<rparr>) 400 [] None [single_task])
       = Inr 1024
   \<and> map_sum id snd (build_sent_encoder args0 400 [] None [single_task]) = Inr 1424
   \<and> map_sum id snd (build_sent_encoder (args0\<lparr>sent_enc := ''bow'', skip_embs := 0\<rparr>)
         400 [] None [single_task]) = Inr 400"
  using build_sent_encoder_d_sent [of "[single_task]" "args0\<lparr>skip_embs := 0\<rparr>" 400 "[]" None]
        build_sent_encoder_d_sent [of "[single_task]" args0 400 "[]" None]
        build_sent_encoder_d_sent [of "[single_task]" "args0\<lparr>sent_enc := ''bow'', skip_embs := 0\<rparr>" 400 "[]" None]
  by (auto simp: args0_def single_task_def)

section \<open>Properties of the forward pass\<close>

lemma isinstance_ranking: "isinstance c RankingTask \<longleftrightarrow> c = RankingTask"
  by (cases c) auto

lemma forward_ranking:
  "isinstance (tclass task) RankingTask \<Longrightarrow> forward T m task batch = Inl NotImplementedError"
  by (simp add: forward_def isinstance_ranking is_pair_def ranking_forward_def)

text \<open>
  Claim C6: for a task of category Ranking \<^verbatim>\<open>forward\<close> raises
  \<^verbatim>\<open>NotImplementedError\<close>, whatever the model and the batch; for a task outside the
  recognized categories it raises \<^verbatim>\<open>ValueError\<close> with the message that the
  task-specific components were not found.
\<close>

theorem forward_ranking_and_unrecognized:
  "(isinstance (tclass task) RankingTask \<longrightarrow> forward T m task batch = Inl NotImplementedError)
   \<and> (\<not> recognized (tclass task) \<longrightarrow>
        forward T m task batch = Inl (ValueError ''Task-specific components not found!''))"
  by (auto simp: forward_def recognized_def isinstance_ranking is_pair_def ranking_forward_def)

theorem forward_ranking_and_unrecognized_witness:
  "isinstance (tclass ranking_task) RankingTask
   \<and> forward torch0 model0 ranking_task batch0 = Inl NotImplementedError
   \<and> \<not> recognized (tclass other_task)
   \<and> forward torch0 model0 other_task batch0
       = Inl (ValueError ''Task-specific components not found!'')"
  using forward_ranking_and_unrecognized [of ranking_task torch0 model0 batch0]
        forward_ranking_and_unrecognized [of other_task torch0 model0 batch0]
  by (simp add: ranking_task_def other_task_def recognized_def is_pair_def)

lemma seq_task_forward: "forward torch0 model0 seq_task batch0 = Inr Map.empty"
  by (simp add: forward_def seq_task_def is_pair_def seq_gen_forward_def batch_get_def
       batch0_def field_get_def torch0_def model0_def MultiTaskModel_def)

text \<open>
  Claim C8, as stated, fails: sequence generation is a recognized category, and for it
  \<^verbatim>\<open>forward\<close> returns the empty mapping, without the key \<^verbatim>\<open>"logits"\<close>.
\<close>

theorem seq_gen_forward_no_logits:
  "isinstance (tclass seq_task) SequenceGenerationTask
   \<and> forward torch0 model0 seq_task batch0 = Inr Map.empty"
  by (simp add: seq_task_forward) (simp add: seq_task_def)

lemma isinstance_lm: "isinstance c LanguageModelingTask \<longleftrightarrow> c = LanguageModelingTask"
  by (cases c) auto

lemma isinstance_seq: "isinstance c SequenceGenerationTask \<longleftrightarrow> c = SequenceGenerationTask"
  by (cases c) auto

lemma single_forward_keys:
  assumes "single_sentence_forward T m batch task = Inr out"
  shows "dom out = (if ''labels'' \<in> dom batch then {''logits'', ''loss''} else {''logits''})"
proof (cases "batch ''labels''")
  case None
  with assms show ?thesis
    by (auto simp: single_sentence_forward_def ebind_Inr_iff Let_def case_prod_beta)
next
  case (Some y)
  with assms show ?thesis
    by (auto simp: single_sentence_forward_def ebind_Inr_iff Let_def case_prod_beta
             split: if_splits)
qed

lemma pair_forward_keys:
  assumes "pair_sentence_forward T m batch task = Inr out"
  shows "dom out = (if ''labels'' \<in> dom batch then {''logits'', ''loss''} else {''logits''})"
proof (cases "batch ''labels''")
  case None
  with assms show ?thesis
    by (auto simp: pair_sentence_forward_def ebind_Inr_iff Let_def case_prod_beta)
next
  case (Some y)
  with assms show ?thesis
    by (auto simp: pair_sentence_forward_def ebind_Inr_iff Let_def case_prod_beta
             split: if_splits)
qed

lemma lm_forward_keys:
  "lm_forward T m batch task = Inr out \<Longrightarrow> dom out = {''logits'', ''loss''}"
  by (auto simp: lm_forward_def ebind_Inr_iff Let_def case_prod_beta split: if_splits)

lemma seq_gen_forward_empty:
  "seq_gen_forward T m batch task = Inr out \<Longrightarrow> out = Map.empty"
  by (auto simp: seq_gen_forward_def ebind_Inr_iff Let_def case_prod_beta split: if_splits)

text \<open>
  Claim C8, amended: whenever \<^verbatim>\<open>forward\<close> returns, for a single-sentence or pair
  task the mapping has the key \<^verbatim>\<open>"logits"\<close>, and the key \<^verbatim>\<open>"loss"\<close> exactly when the
  batch has \<^verbatim>\<open>"labels"\<close>; for a language-modelling task it has both keys; for a
  sequence-generation task it is empty; and the task is not a Ranking task.
\<close>

theorem forward_keys:
  assumes "forward T m task batch = Inr out"
  shows "(isinstance (tclass task) SingleClassificationTask \<or> is_pair (tclass task) \<longrightarrow>
            ''logits'' \<in> dom out \<and> (''loss'' \<in> dom out \<longleftrightarrow> ''labels'' \<in> dom batch))
       \<and> (isinstance (tclass task) LanguageModelingTask \<longrightarrow>
            ''logits'' \<in> dom out \<and> ''loss'' \<in> dom out)
       \<and> (isinstance (tclass task) SequenceGenerationTask \<longrightarrow> out = Map.empty)
       \<and> \<not> isinstance (tclass task) RankingTask"
proof -
  have r: "\<not> isinstance (tclass task) RankingTask"
    using assms forward_ranking [of task T m batch] by auto
  have s: "dom out = (if ''labels'' \<in> dom batch then {''logits'', ''loss''} else {''logits''})"
    if "isinstance (tclass task) SingleClassificationTask \<or> is_pair (tclass task)"
  proof (cases "isinstance (tclass task) SingleClassificationTask")
    case True
    with assms have "single_sentence_forward T m batch task = Inr out"
      by (simp add: forward_def)
    then show ?thesis by (rule single_forward_keys)
  next
    case False
    with that assms have "pair_sentence_forward T m batch task = Inr out"
      by (simp add: forward_def)
    then show ?thesis by (rule pair_forward_keys)
  qed
  have l: "dom out = {''logits'', ''loss''}" if "isinstance (tclass task) LanguageModelingTask"
  proof -
    from that have "tclass task = LanguageModelingTask" by (simp add: isinstance_lm)
    with assms have "lm_forward T m batch task = Inr out"
      by (simp add: forward_def is_pair_def)
    then show ?thesis by (rule lm_forward_keys)
  qed
  have g: "out = Map.empty" if "isinstance (tclass task) SequenceGenerationTask"
  proof -
    from that have "tclass task = SequenceGenerationTask" by (simp add: isinstance_seq)
    with assms have "seq_gen_forward T m batch task = Inr out"
      by (simp add: forward_def is_pair_def)
    then show ?thesis by (rule seq_gen_forward_empty)
  qed
  show ?thesis
  proof (intro conjI impI)
    assume h: "isinstance (tclass task) SingleClassificationTask \<or> is_pair (tclass task)"
    show "''logits'' \<in> dom out" using s [OF h] by (simp split: if_splits)
    show "''loss'' \<in> dom out \<longleftrightarrow> ''labels'' \<in> dom batch" using s [OF h] by (simp split: if_splits)
  next
    assume h: "isinstance (tclass task) LanguageModelingTask"
    show "''logits'' \<in> dom out" using l [OF h] by simp
    show "''loss'' \<in> dom out" using l [OF h] by simp
  next
    assume "isinstance (tclass task) SequenceGenerationTask"
    then show "out = Map.empty" by (rule g)
  next
    show "\<not> isinstance (tclass task) RankingTask" by (rule r)
  qed
qed

lemma single_task_forward:
  "forward torch0 model0 single_task batch0 =
     Inr [''loss'' \<mapsto> Loss 1, ''logits'' \<mapsto> Logits [[0, 1], [0, 1]]]"
  by (simp add: forward_def single_task_def single_sentence_forward_def batch_get_def
        batch0_def torch0_def model0_def MultiTaskModel_def getattr_def call_scorer_def)

lemma lm_task_forward:
  "forward torch0 model0 lm_task batch0 =
     Inr [''logits'' \<mapsto> Logits [[3, 1], [4, 1], [0, 0], [5, 1], [0, 0], [0, 0]],
          ''loss'' \<mapsto> Loss 2]"
  by (simp add: forward_def lm_task_def lm_forward_def lm_encode_def lm_logits_targs_def
        lm_logits_def lm_targs_def
        is_pair_def batch_get_def field_get_def same_shape_def masked_fill_def
        project_rows_def cross_entropy_def
        batch0_def torch0_def model0_def MultiTaskModel_def vocab0_def getattr_def
        call_scorer_def)

theorem forward_keys_witness:
  "forward torch0 model0 single_task batch0 =
     Inr [''loss'' \<mapsto> Loss 1, ''logits'' \<mapsto> Logits [[0, 1], [0, 1]]]
   \<and> isinstance (tclass single_task) SingleClassificationTask
   \<and> ''labels'' \<in> dom batch0
   \<and> forward torch0 model0 lm_task batch0 =
     Inr [''logits'' \<mapsto> Logits [[3, 1], [4, 1], [0, 0], [5, 1], [0, 0], [0, 0]],
          ''loss'' \<mapsto> Loss 2]
   \<and> isinstance (tclass lm_task) LanguageModelingTask
   \<and> forward torch0 model0 seq_task batch0 = Inr Map.empty
   \<and> isinstance (tclass seq_task) SequenceGenerationTask"
  using forward_keys [OF single_task_forward] forward_keys [OF lm_task_forward]
        forward_keys [OF seq_task_forward] single_task_forward lm_task_forward
        seq_task_forward
  by (simp add: single_task_def lm_task_def seq_task_def batch0_def)

section \<open>The language-modelling loss and padding\<close>

lemma filter_zip_agree:
  "length L = length targs \<Longrightarrow> length targs = length L' \<Longrightarrow>
   \<forall>(t, r, r') \<in> set (zip targs (zip L L')). t \<noteq> pad \<longrightarrow> r = r' \<Longrightarrow>
   filter (\<lambda>(row, t). t \<noteq> pad) (zip L targs) = filter (\<lambda>(row, t). t \<noteq> pad) (zip L' targs)"
proof (induction L targs L' rule: list_induct3)
  case Nil
  then show ?case by simp
next
  case (Cons r L t targs r' L')
  then show ?case by auto
qed

lemma cross_entropy_agree:
  assumes "agree_off_pad pad targs L L'" and "nll T' = nll T" and "mean T' = mean T"
  shows "cross_entropy T' L' targs pad = cross_entropy T L targs pad"
proof -
  from assms(1) have len: "length L = length targs" "length targs = length L'"
    and ag: "\<forall>(t, r, r') \<in> set (zip targs (zip L L')). t \<noteq> pad \<longrightarrow> r = r'"
    by (auto simp: agree_off_pad_def)
  show ?thesis
    using filter_zip_agree [OF len ag] len assms(2,3) by (simp add: cross_entropy_def)
qed

lemma lm_forward_Inr:
  assumes "lm_forward T m batch task = Inr out"
  shows "\<exists>L targs loss. lm_targs m batch = Inr targs
           \<and> cross_entropy T L targs (token_index (vocab m) (padding_token (vocab m))) = Inr loss
           \<and> out = [''logits'' \<mapsto> Logits L, ''loss'' \<mapsto> Loss loss]"
  using assms
  by (auto simp: lm_forward_def lm_logits_targs_def ebind_Inr_iff Let_def case_prod_beta
           split: if_splits)


lemma lm_task_forward1:
  "forward torch1 model0 lm_task batch0 =
     Inr [''logits'' \<mapsto> Logits [[3, 1], [4, 1], [7, 7], [5, 1], [7, 7], [7, 7]],
          ''loss'' \<mapsto> Loss 2]"
  by (simp add: forward_def lm_task_def lm_forward_def lm_encode_def lm_logits_targs_def
        lm_logits_def lm_targs_def
        is_pair_def batch_get_def field_get_def same_shape_def masked_fill_def
        project_rows_def cross_entropy_def
        batch0_def torch0_def torch1_def model0_def MultiTaskModel_def vocab0_def getattr_def
        call_scorer_def)

lemma lm_task_is_lm_forward: "forward T m lm_task batch = lm_forward T m batch lm_task"
  by (simp add: forward_def lm_task_def is_pair_def)

lemma lm_targs0: "lm_targs model0 batch0 = Inr [4, 2, 0, 2, 0, 0]"
  by (simp add: lm_targs_def batch_get_def field_get_def batch0_def model0_def
        MultiTaskModel_def)

text \<open>
  Claim C5: two language-modelling forward calls on the same model and batch, with
  whatever encoder and projection, whose logits differ only in rows whose target is the
  padding index, return the same loss: the cross-entropy leaves those rows out.
\<close>

theorem lm_loss_ignores_padding_logits:
  assumes "lm_forward T m batch task = Inr out" and "lm_forward T' m batch task = Inr out'"
      and "nll T' = nll T" and "mean T' = mean T"
      and "out ''logits'' = Some (Logits L)" and "out' ''logits'' = Some (Logits L')"
      and "lm_targs m batch = Inr targs"
      and "\<forall>(t, r, r') \<in> set (zip targs (zip L L')).
             t \<noteq> token_index (vocab m) (padding_token (vocab m)) \<longrightarrow> r = r'"
  shows "out' ''loss'' = out ''loss''"
proof -
  let ?pad = "token_index (vocab m) (padding_token (vocab m))"
  from lm_forward_Inr [OF assms(1)] assms(5,7) obtain loss where
    ce: "cross_entropy T L targs ?pad = Inr loss" and out: "out ''loss'' = Some (Loss loss)"
    by auto
  from lm_forward_Inr [OF assms(2)] assms(6,7) obtain loss' where
    ce': "cross_entropy T' L' targs ?pad = Inr loss'" and out': "out' ''loss'' = Some (Loss loss')"
    by auto
  from ce have "length L = length targs" by (simp add: cross_entropy_def split: if_splits)
  moreover from ce' have "length L' = length targs"
    by (simp add: cross_entropy_def split: if_splits)
  ultimately have "agree_off_pad ?pad targs L L'" using assms(8) by (simp add: agree_off_pad_def)
  from cross_entropy_agree [OF this assms(3,4)] ce ce' have "loss' = loss" by simp
  with out out' show ?thesis by simp
qed

theorem lm_loss_ignores_padding_logits_witness:
  "lm_forward torch0 model0 batch0 lm_task =
     Inr [''logits'' \<mapsto> Logits [[3, 1], [4, 1], [0, 0], [5, 1], [0, 0], [0, 0]],
          ''loss'' \<mapsto> Loss 2]
   \<and> lm_forward torch1 model0 batch0 lm_task =
     Inr [''logits'' \<mapsto> Logits [[3, 1], [4, 1], [7, 7], [5, 1], [7, 7], [7, 7]],
          ''loss'' \<mapsto> Loss 2]
   \<and> nll torch1 = nll torch0 \<and> mean torch1 = mean torch0
   \<and> lm_targs model0 batch0 = Inr [4, 2, 0, 2, 0, 0]
   \<and> token_index (vocab model0) (padding_token (vocab model0)) = 0
   \<and> agree_off_pad 0 [4, 2, 0, 2, 0, 0]
         [[3, 1], [4, 1], [0, 0], [5, 1], [0, 0], [0, 0]]
         [[3, 1], [4, 1], [7, 7], [5, 1], [7, 7], [7::int, 7]]"
proof -
  have f0: "lm_forward torch0 model0 batch0 lm_task =
     Inr [''logits'' \<mapsto> Logits [[3, 1], [4, 1], [0, 0], [5, 1], [0, 0], [0, 0]],
          ''loss'' \<mapsto> Loss 2]"
    using lm_task_forward by (simp add: lm_task_is_lm_forward)
  have f1: "lm_forward torch1 model0 batch0 lm_task =
     Inr [''logits'' \<mapsto> Logits [[3, 1], [4, 1], [7, 7], [5, 1], [7, 7], [7, 7]],
          ''loss'' \<mapsto> Loss 2]"
    using lm_task_forward1 by (simp add: lm_task_is_lm_forward)
  have n: "nll torch1 = nll torch0" and me: "mean torch1 = mean torch0"
    by (simp_all add: torch1_def)
  have p: "token_index (vocab model0) (padding_token (vocab model0)) = 0"
    by (simp add: model0_def MultiTaskModel_def vocab0_def)
  have ag: "\<forall>(t, r, r') \<in> set (zip [4, 2, 0, 2, 0, 0]
          (zip [[3, 1], [4, 1], [0, 0], [5, 1], [0, 0], [0, 0]]
               [[3, 1], [4, 1], [7, 7], [5, 1], [7, 7], [7::int, 7]])).
            t \<noteq> token_index (vocab model0) (padding_token (vocab model0)) \<longrightarrow> r = r'"
    by (simp add: p)
  have "([''logits'' \<mapsto> Logits [[3, 1], [4, 1], [7, 7], [5, 1], [7, 7], [7, 7]],
          ''loss'' \<mapsto> Loss (2::int)]) ''loss''
      = ([''logits'' \<mapsto> Logits [[3, 1], [4, 1], [0, 0], [5, 1], [0, 0], [0, 0]],
          ''loss'' \<mapsto> Loss 2]) ''loss''"
    by (rule lm_loss_ignores_padding_logits [OF f0 f1 n me _ _ lm_targs0 ag]) simp_all
  with f0 f1 n me lm_targs0 p ag show ?thesis by (simp add: agree_off_pad_def)
qed

section \<open>Properties of the head builder\<close>

lemma mdl_neq_pair_attn: "n @ ''_mdl'' \<noteq> ''pair_attn''"
proof
  assume "n @ ''_mdl'' = ''pair_attn''"
  then have "last (n @ ''_mdl'') = last ''pair_attn''" by simp
  then show False by simp
qed

lemma hid2voc_neq_pair_attn: "n @ ''_hid2voc'' \<noteq> ''pair_attn''"
proof
  assume "n @ ''_hid2voc'' = ''pair_attn''"
  then have "last (n @ ''_hid2voc'') = last ''pair_attn''" by simp
  then show False by simp
qed

lemma decoder_neq_pair_attn: "n @ ''_decoder'' \<noteq> ''pair_attn''"
proof
  assume "n @ ''_decoder'' = ''pair_attn''"
  then have "last (n @ ''_decoder'') = last ''pair_attn''" by simp
  then show False by simp
qed

lemma hid2voc_neq_mdl: "n @ ''_hid2voc'' \<noteq> k @ ''_mdl''"
proof
  assume "n @ ''_hid2voc'' = k @ ''_mdl''"
  then have "last (n @ ''_hid2voc'') = last (k @ ''_mdl'')" by simp
  then show False by simp
qed

lemma decoder_neq_mdl: "n @ ''_decoder'' \<noteq> k @ ''_mdl''"
proof
  assume "n @ ''_decoder'' = k @ ''_mdl''"
  then have "last (n @ ''_decoder'') = last (k @ ''_mdl'')" by simp
  then show False by simp
qed

lemma is_pair_not_single: "is_pair c \<Longrightarrow> \<not> isinstance c SingleClassificationTask"
  by (cases c) (auto simp: is_pair_def)

lemma attrs_setattr: "attrs (setattr m n v) = (attrs m)(n \<mapsto> v)"
  by (simp add: setattr_def)

lemma hasattr_setattr: "hasattr (setattr m n v) k \<longleftrightarrow> k = n \<or> hasattr m k"
  by (auto simp: hasattr_def setattr_def)

lemma vocab_setattr: "vocab (setattr m n v) = vocab m"
  by (simp add: setattr_def)

lemma build_pair_attn_attrs:
  "build_pair_attn m d p d' u = (pa, m1) \<Longrightarrow>
   attrs m1 = attrs m \<and> (\<forall>pl cl x. pa \<noteq> PairClassifier pl cl x)"
  by (auto simp: build_pair_attn_def Let_def split: if_splits)

lemma build_pair_sentence_module_head:
  assumes "build_pair_sentence_module task d m p = Inr (h, m')"
  shows "\<exists>pl cl pa. h = PairClassifier pl cl pa
           \<and> (\<forall>k. hasattr m k \<longrightarrow> hasattr m' k)
           \<and> (\<forall>k. k \<noteq> ''pair_attn'' \<longrightarrow> attrs m' k = attrs m k)
           \<and> (truthy (shared_pair_attn p) \<longrightarrow>
                attrs m' ''pair_attn'' = Some pa
                \<and> (hasattr m ''pair_attn'' \<longrightarrow> attrs m' = attrs m)
                \<and> (\<not> hasattr m ''pair_attn'' \<longrightarrow>
                     attrs m' = (attrs m)(''pair_attn'' \<mapsto> pa)
                     \<and> (\<forall>pl cl x. pa \<noteq> PairClassifier pl cl x)))"
proof (cases "truthy (shared_pair_attn p)")
  case False
  obtain pa m1 where b: "build_pair_attn m d p d (attn p) = (pa, m1)"
    by (cases "build_pair_attn m d p d (attn p)")
  from build_pair_attn_attrs [OF b] have a: "attrs m1 = attrs m" by simp
  from assms False b a show ?thesis
    by (auto simp: build_pair_sentence_module_def Let_def ebind_Inr_iff hasattr_def)
next
  case True
  show ?thesis
  proof (cases "hasattr m ''pair_attn''")
    case h: True
    with assms True show ?thesis
      by (auto simp: build_pair_sentence_module_def Let_def ebind_Inr_iff hasattr_def)
  next
    case h: False
    obtain pa m1 where b: "build_pair_attn m d p d (attn p) = (pa, m1)"
      by (cases "build_pair_attn m d p d (attn p)")
    from build_pair_attn_attrs [OF b] have a: "attrs m1 = attrs m"
      and np: "\<forall>pl cl x. pa \<noteq> PairClassifier pl cl x" by simp_all
    from assms True h b a np show ?thesis
      by (auto simp: build_pair_sentence_module_def Let_def ebind_Inr_iff hasattr_def
            attrs_setattr)
  qed
qed


lemma build_module_cases:
  assumes "build_module a d e m t = Inr m'"
  obtains
    (single) pl cl where "isinstance (tclass t) SingleClassificationTask"
      "m' = setattr m (name t @ ''_mdl'') (SingleClassifier pl cl)"
  | (pair) p h m1 where "is_pair (tclass t)"
      "get_task_specific_params (opts a) (name t) = Inr p"
      "build_pair_sentence_module t d m p = Inr (h, m1)"
      "m' = setattr m1 (name t @ ''_mdl'') h"
  | (lm) "isinstance (tclass t) LanguageModelingTask" "\<not> is_pair (tclass t)"
      "m' = setattr m (name t @ ''_hid2voc'') (Linear d (max_word_v_size a))"
  | (seq) em k r where "isinstance (tclass t) SequenceGenerationTask" "\<not> is_pair (tclass t)"
      "m' = setattr (setattr m (name t @ ''_decoder'') (Decoder em k r))
              (name t @ ''_hid2voc'') (Linear (d_hid_dec a) (max_word_v_size a))"
  | (ranking) "isinstance (tclass t) RankingTask" "\<not> is_pair (tclass t)" "m' = m"
proof -
  from assms obtain p where p: "get_task_specific_params (opts a) (name t) = Inr p"
    by (auto simp: build_module_def ebind_Inr_iff)
  show thesis
  proof (cases "isinstance (tclass t) SingleClassificationTask")
    case True
    with assms p show thesis
      by (auto simp: build_module_def build_single_sentence_module_def Let_def ebind_Inr_iff
               split: option.splits intro: single)
  next
    case ns: False
    show thesis
    proof (cases "is_pair (tclass t)")
      case True
      with assms p ns show thesis
        by (auto simp: build_module_def ebind_Inr_iff intro: pair)
    next
      case np: False
      show thesis
      proof (cases "isinstance (tclass t) LanguageModelingTask")
        case True
        with assms p ns np show thesis
          by (auto simp: build_module_def build_lm_def intro: lm)
      next
        case nl: False
        show thesis
        proof (cases "isinstance (tclass t) SequenceGenerationTask")
          case True
          with assms p ns np nl show thesis
            by (auto simp: build_module_def build_decoder_def Let_def intro: seq)
        next
          case nq: False
          with assms p ns np nl show thesis
            by (auto simp: build_module_def split: if_splits intro: ranking)
        qed
      qed
    qed
  qed
qed

lemma build_module_mono:
  assumes "build_module a d e m t = Inr m'" and "hasattr m k"
  shows "hasattr m' k"
  using assms(1)
proof (cases rule: build_module_cases)
  case (pair p h m1)
  from build_pair_sentence_module_head [OF pair(3)] assms(2) have "hasattr m1 k" by blast
  with pair show ?thesis by (simp add: hasattr_setattr)
qed (use assms(2) in \<open>simp_all add: hasattr_setattr\<close>)

lemma build_module_attaches:
  assumes "build_module a d e m t = Inr m'"
  shows "(isinstance (tclass t) SingleClassificationTask \<or> is_pair (tclass t)
            \<longrightarrow> hasattr m' (name t @ ''_mdl''))
       \<and> (isinstance (tclass t) LanguageModelingTask \<longrightarrow> hasattr m' (name t @ ''_hid2voc''))
       \<and> (isinstance (tclass t) SequenceGenerationTask
            \<longrightarrow> hasattr m' (name t @ ''_decoder'') \<and> hasattr m' (name t @ ''_hid2voc''))
       \<and> (isinstance (tclass t) RankingTask \<longrightarrow> m' = m)"
  using assms
proof (cases rule: build_module_cases)
  case (single pl cl)
  then show ?thesis by (cases "tclass t") (auto simp: hasattr_setattr)
next
  case (pair p h m1)
  then show ?thesis by (cases "tclass t") (auto simp: hasattr_setattr is_pair_def)
next
  case lm
  then show ?thesis by (cases "tclass t") (auto simp: hasattr_setattr is_pair_def)
next
  case (seq em k r)
  then show ?thesis by (cases "tclass t") (auto simp: hasattr_setattr is_pair_def)
next
  case ranking
  then show ?thesis by (cases "tclass t") (auto simp: hasattr_setattr is_pair_def)
qed

lemma build_modules_mono:
  "build_modules tasks m d e a = Inr m' \<Longrightarrow> hasattr m k \<Longrightarrow> hasattr m' k"
proof (induction tasks arbitrary: m)
  case Nil
  then show ?case by simp
next
  case (Cons t tasks)
  from Cons.prems(1) obtain m1 where s: "build_module a d e m t = Inr m1"
    and r: "build_modules tasks m1 d e a = Inr m'"
    by (auto simp: ebind_Inr_iff)
  from build_module_mono [OF s Cons.prems(2)] have "hasattr m1 k" .
  with Cons.IH [OF r] show ?case .
qed

lemma build_modules_heads:
  "build_modules tasks m d e a = Inr m' \<Longrightarrow> t \<in> set tasks \<Longrightarrow>
   (isinstance (tclass t) SingleClassificationTask \<or> is_pair (tclass t)
            \<longrightarrow> hasattr m' (name t @ ''_mdl''))
   \<and> (isinstance (tclass t) LanguageModelingTask \<longrightarrow> hasattr m' (name t @ ''_hid2voc''))
   \<and> (isinstance (tclass t) SequenceGenerationTask
            \<longrightarrow> hasattr m' (name t @ ''_decoder'') \<and> hasattr m' (name t @ ''_hid2voc''))"
proof (induction tasks arbitrary: m)
  case Nil
  then show ?case by simp
next
  case (Cons x tasks)
  from Cons.prems(1) obtain m1 where s: "build_module a d e m x = Inr m1"
    and r: "build_modules tasks m1 d e a = Inr m'"
    by (auto simp: ebind_Inr_iff)
  show ?case
  proof (cases "t = x")
    case True
    from build_module_attaches [OF s] True build_modules_mono [OF r]
    show ?thesis by blast
  next
    case False
    with Cons.prems(2) have "t \<in> set tasks" by simp
    from Cons.IH [OF r this] show ?thesis .
  qed
qed

lemma build_model_modules:
  "build_model imp a v pre tasks = Inr m' \<Longrightarrow>
   \<exists>enc d e. build_modules tasks (MultiTaskModel a enc v) d e a = Inr m'"
  by (auto simp: build_model_def ebind_Inr_iff)

text \<open>
  Claim C1: when \<^verbatim>\<open>build_modules\<close> (or \<^verbatim>\<open>build_model\<close>, which ends with it) has
  completed over a task list, every task of the list has its head attached to the model
  under its name: \<^verbatim>\<open><name>_mdl\<close> for a single-sentence or pair task,
  \<^verbatim>\<open><name>_hid2voc\<close> for a language-modelling task, \<^verbatim>\<open><name>_decoder\<close> and
  \<^verbatim>\<open><name>_hid2voc\<close> for a sequence-generation task; for a Ranking task the step of
  the loop leaves the model as it was.
\<close>

theorem build_modules_attaches_heads:
  assumes "build_modules tasks m d_sent embedder a = Inr m'
           \<or> build_model imp a v pre tasks = Inr m'"
      and "t \<in> set tasks"
  shows "(isinstance (tclass t) SingleClassificationTask \<or> is_pair (tclass t)
            \<longrightarrow> hasattr m' (name t @ ''_mdl''))
       \<and> (isinstance (tclass t) LanguageModelingTask \<longrightarrow> hasattr m' (name t @ ''_hid2voc''))
       \<and> (isinstance (tclass t) SequenceGenerationTask
            \<longrightarrow> hasattr m' (name t @ ''_decoder'') \<and> hasattr m' (name t @ ''_hid2voc''))
       \<and> (isinstance (tclass t) RankingTask
            \<longrightarrow> (\<forall>d0 e0 m0 m1. build_module a d0 e0 m0 t = Inr m1 \<longrightarrow> m1 = m0))"
proof -
  from assms(1) obtain m0 d e where "build_modules tasks m0 d e a = Inr m'"
    using build_model_modules by blast
  from build_modules_heads [OF this assms(2)] build_module_attaches [of a _ _ _ t]
  show ?thesis by blast
qed


lemma get_task_specific_params_shared:
  "get_task_specific_params ns task = Inr p \<Longrightarrow> ns ''shared_pair_attn'' = Some (shared_pair_attn p)"
  unfolding get_task_specific_params_def
  by (auto simp: ebind_Inr_iff split: if_splits dest!: getattr_ns_Some)

lemma build_module_other_names:
  assumes "build_module a d e m t = Inr m'" and "name t \<noteq> n"
  shows "attrs m' (n @ ''_mdl'') = attrs m (n @ ''_mdl'')"
  using assms(1)
proof (cases rule: build_module_cases)
  case (single pl cl)
  with assms(2) show ?thesis by (simp add: attrs_setattr)
next
  case (pair p h m1)
  from build_pair_sentence_module_head [OF pair(3)]
  have "attrs m1 (n @ ''_mdl'') = attrs m (n @ ''_mdl'')"
    using mdl_neq_pair_attn by blast
  with pair assms(2) show ?thesis by (simp add: attrs_setattr)
next
  case lm
  then show ?thesis using hid2voc_neq_mdl [of "name t" n] by (auto simp: attrs_setattr)
next
  case (seq em k r)
  then show ?thesis
    using hid2voc_neq_mdl [of "name t" n] decoder_neq_mdl [of "name t" n]
    by (auto simp: attrs_setattr)
next
  case ranking
  then show ?thesis by simp
qed

lemma build_module_shares:
  assumes "build_module a d e m t = Inr m'"
      and "opts a ''shared_pair_attn'' = Some s" and "truthy s" and "shares_attn m"
  shows "shares_attn m'"
  using assms(1)
proof (cases rule: build_module_cases)
  case (single pl cl)
  with assms(4) show ?thesis
    using mdl_neq_pair_attn [of "name t"]
    by (auto simp: shares_attn_def attrs_setattr split: if_splits)
next
  case (pair p h m1)
  from get_task_specific_params_shared [OF pair(2)] assms(2,3)
  have sh: "truthy (shared_pair_attn p)" by simp
  from build_pair_sentence_module_head [OF pair(3)] sh obtain pl cl pa where
    h: "h = PairClassifier pl cl pa" and pa: "attrs m1 ''pair_attn'' = Some pa"
    and old: "hasattr m ''pair_attn'' \<longrightarrow> attrs m1 = attrs m"
    and new: "\<not> hasattr m ''pair_attn'' \<longrightarrow>
                attrs m1 = (attrs m)(''pair_attn'' \<mapsto> pa)
                \<and> (\<forall>pl cl x. pa \<noteq> PairClassifier pl cl x)"
    by blast
  have m1: "shares_attn m1"
  proof (cases "hasattr m ''pair_attn''")
    case True
    with old assms(4) show ?thesis by (simp add: shares_attn_def)
  next
    case False
    with new have a: "attrs m1 = (attrs m)(''pair_attn'' \<mapsto> pa)"
      and np: "\<forall>pl cl x. pa \<noteq> PairClassifier pl cl x" by simp_all
    from False assms(4) have none: "\<forall>n p c x. attrs m n \<noteq> Some (PairClassifier p c x)"
      by (auto simp: shares_attn_def hasattr_def)
    show ?thesis unfolding shares_attn_def a using none np by (auto split: if_splits)
  qed
  show ?thesis
    unfolding shares_attn_def pair(4) attrs_setattr h
    using m1 pa mdl_neq_pair_attn [of "name t"]
    by (auto simp: shares_attn_def split: if_splits)
next
  case lm
  with assms(4) show ?thesis
    using hid2voc_neq_pair_attn [of "name t"]
    by (auto simp: shares_attn_def attrs_setattr split: if_splits)
next
  case (seq em k r)
  with assms(4) show ?thesis
    using hid2voc_neq_pair_attn [of "name t"] decoder_neq_pair_attn [of "name t"]
    by (auto simp: shares_attn_def attrs_setattr split: if_splits)
next
  case ranking
  with assms(4) show ?thesis by simp
qed

lemma build_module_pair_attached:
  assumes "build_module a d e m t = Inr m'"
      and "opts a ''shared_pair_attn'' = Some s" and "truthy s" and "is_pair (tclass t)"
  shows "hasattr m' ''pair_attn''
         \<and> (\<exists>pl cl pa. attrs m' (name t @ ''_mdl'') = Some (PairClassifier pl cl pa))"
  using assms(1)
proof (cases rule: build_module_cases)
  case (single pl cl)
  with assms(4) show ?thesis using is_pair_not_single by blast
next
  case (pair p h m1)
  from get_task_specific_params_shared [OF pair(2)] assms(2,3)
  have sh: "truthy (shared_pair_attn p)" by simp
  from build_pair_sentence_module_head [OF pair(3)] sh obtain pl cl pa where
    h: "h = PairClassifier pl cl pa" and pa: "attrs m1 ''pair_attn'' = Some pa"
    by blast
  with pair(4) show ?thesis
    using mdl_neq_pair_attn [of "name t"] by (auto simp: hasattr_def attrs_setattr)
qed (use assms(4) in simp_all)

lemma build_modules_other_names:
  "build_modules tasks m d e a = Inr m' \<Longrightarrow> \<forall>x \<in> set tasks. name x \<noteq> n \<Longrightarrow>
   attrs m' (n @ ''_mdl'') = attrs m (n @ ''_mdl'')"
proof (induction tasks arbitrary: m)
  case Nil
  then show ?case by simp
next
  case (Cons t tasks)
  from Cons.prems(1) obtain m1 where s: "build_module a d e m t = Inr m1"
    and r: "build_modules tasks m1 d e a = Inr m'"
    by (auto simp: ebind_Inr_iff)
  from Cons.prems(2) have "name t \<noteq> n" and rest: "\<forall>x \<in> set tasks. name x \<noteq> n" by simp_all
  from build_module_other_names [OF s this(1)] Cons.IH [OF r rest] show ?case by simp
qed

lemma build_modules_shares:
  "build_modules tasks m d e a = Inr m' \<Longrightarrow> opts a ''shared_pair_attn'' = Some s \<Longrightarrow>
   truthy s \<Longrightarrow> shares_attn m \<Longrightarrow> shares_attn m'"
proof (induction tasks arbitrary: m)
  case Nil
  then show ?case by simp
next
  case (Cons t tasks)
  from Cons.prems(1) obtain m1 where s: "build_module a d e m t = Inr m1"
    and r: "build_modules tasks m1 d e a = Inr m'"
    by (auto simp: ebind_Inr_iff)
  from build_module_shares [OF s Cons.prems(2,3,4)] have "shares_attn m1" .
  from Cons.IH [OF r Cons.prems(2,3) this] show ?case .
qed

lemma build_modules_pair_heads:
  "build_modules tasks m d e a = Inr m' \<Longrightarrow> opts a ''shared_pair_attn'' = Some s \<Longrightarrow>
   truthy s \<Longrightarrow> t \<in> set tasks \<Longrightarrow> is_pair (tclass t) \<Longrightarrow>
   hasattr m' ''pair_attn''
   \<and> (distinct (map name tasks) \<longrightarrow>
        (\<exists>pl cl pa. attrs m' (name t @ ''_mdl'') = Some (PairClassifier pl cl pa)))"
proof (induction tasks arbitrary: m)
  case Nil
  then show ?case by simp
next
  case (Cons x tasks)
  from Cons.prems(1) obtain m1 where s: "build_module a d e m x = Inr m1"
    and r: "build_modules tasks m1 d e a = Inr m'"
    by (auto simp: ebind_Inr_iff)
  show ?case
  proof (cases "t = x")
    case True
    from build_module_pair_attached [OF s Cons.prems(2,3)] True Cons.prems(5)
    have h1: "hasattr m1 ''pair_attn''"
      and h2: "\<exists>pl cl pa. attrs m1 (name t @ ''_mdl'') = Some (PairClassifier pl cl pa)"
      by simp_all
    have "hasattr m' ''pair_attn''" using build_modules_mono [OF r h1] .
    moreover have "\<exists>pl cl pa. attrs m' (name t @ ''_mdl'') = Some (PairClassifier pl cl pa)"
      if "distinct (map name (x # tasks))"
    proof -
      from that True have "name t \<notin> name ` set tasks" by simp
      then have "\<forall>y \<in> set tasks. name y \<noteq> name t" by (metis imageI)
      from build_modules_other_names [OF r this] h2 show ?thesis by simp
    qed
    ultimately show ?thesis by blast
  next
    case False
    with Cons.prems(4) have "t \<in> set tasks" by simp
    from Cons.IH [OF r Cons.prems(2,3) this Cons.prems(5)] show ?thesis by simp
  qed
qed

text \<open>
  Claim C4: with \<^verbatim>\<open>shared_pair_attn\<close> true, after \<^verbatim>\<open>build_modules\<close> has run from a
  model without attributes over a list that has a pair task, the pair-attention object is
  attached to the model as \<^verbatim>\<open>pair_attn\<close>, and every pair classifier in the model holds
  that same object (the same identity, not an equal copy); with distinct task names,
  the head of each pair task is such a classifier.
\<close>

theorem shared_pair_attn_identical:
  assumes "build_modules tasks m d_sent embedder a = Inr m'"
      and "attrs m = Map.empty"
      and "opts a ''shared_pair_attn'' = Some s" and "truthy s"
      and "t \<in> set tasks" and "is_pair (tclass t)"
  shows "hasattr m' ''pair_attn''
       \<and> (\<forall>n pl cl pa. attrs m' n = Some (PairClassifier pl cl pa)
             \<longrightarrow> attrs m' ''pair_attn'' = Some pa)
       \<and> (distinct (map name tasks) \<longrightarrow>
            (\<exists>pl cl pa. attrs m' (name t @ ''_mdl'') = Some (PairClassifier pl cl pa)
                        \<and> attrs m' ''pair_attn'' = Some pa))"
proof -
  from assms(2) have "shares_attn m" by (simp add: shares_attn_def)
  from build_modules_shares [OF assms(1,3,4) this] have sh: "shares_attn m'" .
  from build_modules_pair_heads [OF assms(1,3,4,5,6)] sh show ?thesis
    unfolding shares_attn_def by blast
qed

lemma params_rte: "get_task_specific_params opts_shared ''rte'' = Inr (params0 128)"
  by (simp add: opts_shared_rte params0_def)

lemma params_other:
  "n \<in> {''sst'', ''sts-b'', ''lm'', ''mt'', ''rank''} \<Longrightarrow>
   get_task_specific_params opts_shared n = Inr (params0 512)"
  by (auto simp: get_task_specific_params_def get_task_attr_def hasattr_ns_def getattr_ns_def
        task_key_def opts_shared_def params0_def)

lemma build_tasks0: "build_modules tasks0 fresh0 1424 [] args0 = Inr built0"
  by (simp add: tasks0_def build_module_def rte_task_def single_task_def sts_task_def
        lm_task_def seq_task_def ranking_task_def is_pair_def args0_def
        params_rte params_other
        build_pair_sentence_module_def build_single_sentence_module_def build_pair_attn_def
        build_lm_def build_decoder_def get_output_dim_def int_half_def
        hasattr_def setattr_def fresh0_def MultiTaskModel_def built0_def attn0_def
        params0_def Let_def)


lemma ranking_task_builds_nothing:
  "build_module args0 1424 [] built0 ranking_task = Inr built0"
  by (simp add: build_module_def ranking_task_def is_pair_def args0_def params_other)

theorem build_modules_attaches_heads_witness:
  "build_modules tasks0 fresh0 1424 [] args0 = Inr built0
   \<and> single_task \<in> set tasks0 \<and> isinstance (tclass single_task) SingleClassificationTask
   \<and> hasattr built0 ''sst_mdl''
   \<and> sts_task \<in> set tasks0 \<and> is_pair (tclass sts_task) \<and> hasattr built0 ''sts-b_mdl''
   \<and> lm_task \<in> set tasks0 \<and> isinstance (tclass lm_task) LanguageModelingTask
   \<and> hasattr built0 ''lm_hid2voc''
   \<and> seq_task \<in> set tasks0 \<and> isinstance (tclass seq_task) SequenceGenerationTask
   \<and> hasattr built0 ''mt_decoder'' \<and> hasattr built0 ''mt_hid2voc''
   \<and> ranking_task \<in> set tasks0 \<and> isinstance (tclass ranking_task) RankingTask
   \<and> build_module args0 1424 [] built0 ranking_task = Inr built0"
  using build_modules_attaches_heads [of tasks0 fresh0 1424 "[]" args0 built0 False vocab0 None single_task]
        build_modules_attaches_heads [of tasks0 fresh0 1424 "[]" args0 built0 False vocab0 None sts_task]
        build_modules_attaches_heads [of tasks0 fresh0 1424 "[]" args0 built0 False vocab0 None lm_task]
        build_modules_attaches_heads [of tasks0 fresh0 1424 "[]" args0 built0 False vocab0 None seq_task]
        build_modules_attaches_heads [of tasks0 fresh0 1424 "[]" args0 built0 False vocab0 None ranking_task]
        build_tasks0 ranking_task_builds_nothing
  by (simp add: tasks0_def single_task_def sts_task_def lm_task_def seq_task_def
        ranking_task_def is_pair_def)

theorem shared_pair_attn_identical_witness:
  "build_modules tasks0 fresh0 1424 [] args0 = Inr built0
   \<and> attrs fresh0 = Map.empty
   \<and> opts args0 ''shared_pair_attn'' = Some (PInt 1) \<and> truthy (PInt 1)
   \<and> rte_task \<in> set tasks0 \<and> is_pair (tclass rte_task)
   \<and> sts_task \<in> set tasks0 \<and> is_pair (tclass sts_task)
   \<and> distinct (map name tasks0)
   \<and> attrs built0 ''pair_attn'' = Some attn0
   \<and> pair_attn_of (the (attrs built0 ''rte_mdl'')) = attn0
   \<and> pair_attn_of (the (attrs built0 ''sts-b_mdl'')) = attn0"
proof -
  have a: "attrs fresh0 = Map.empty" by (simp add: fresh0_def MultiTaskModel_def)
  have o: "opts args0 ''shared_pair_attn'' = Some (PInt 1)"
    by (simp add: args0_def opts_shared_def)
  have t: "truthy (PInt 1)" by simp
  have r: "rte_task \<in> set tasks0" and s: "sts_task \<in> set tasks0" by (simp_all add: tasks0_def)
  have pr: "is_pair (tclass rte_task)" and ps: "is_pair (tclass sts_task)"
    by (simp_all add: rte_task_def sts_task_def is_pair_def)
  have d: "distinct (map name tasks0)"
    by (simp add: tasks0_def rte_task_def single_task_def sts_task_def lm_task_def
          seq_task_def ranking_task_def)
  have pa: "attrs built0 ''pair_attn'' = Some attn0" by (simp add: built0_def)
  from shared_pair_attn_identical [OF build_tasks0 a o t r pr] d pa
  have 1: "pair_attn_of (the (attrs built0 ''rte_mdl'')) = attn0"
    by (auto simp: rte_task_def)
  from shared_pair_attn_identical [OF build_tasks0 a o t s ps] d pa
  have 2: "pair_attn_of (the (attrs built0 ''sts-b_mdl'')) = attn0"
    by (auto simp: sts_task_def)
  from build_tasks0 a o t r pr s ps d pa 1 2 show ?thesis by simp
qed

end
